theory Spec2Isabelle
  imports Main "HOL-Library.AList" "HOL-Library.Sublist"
begin

section \<open>Python values\<close>

text \<open>
  A Python \<open>str\<close> is a sequence of Unicode code points. String literals of the
  notebooks are ASCII and are written \<open>lit ''...''\<close>.
\<close>

type_synonym pystr = "nat list"

definition lit :: "string \<Rightarrow> pystr" where
  "lit cs = map of_char cs"

text \<open>
  The values the notebooks handle. A float literal is kept as its source text (binary64
  arithmetic is not modelled). \<open>PyObj f args kwargs\<close> is the opaque object an external
  library call \<open>f(*args, **kwargs)\<close> returned: the libraries are not part of the
  repository, so their results are left uninterpreted. A method call \<open>x.m(a)\<close> is
  the call \<open>''.m''\<close> with the receiver \<open>x\<close> as its first argument.
\<close>

datatype pyval =
    PyNone
  | PyBool bool
  | PyInt int
  | PyFloat string
  | PyStr pystr
  | PyList "pyval list"
  | PyTuple "pyval list"
  | PyDict "(pystr \<times> pyval) list"
  | PyObj string "pyval list" "(string \<times> pyval) list"

datatype pyerr =
    IndexError
  | AssertionError
  | OSError nat
  | LibraryError nat

text \<open>A dict is insertion ordered; \<open>d[k] = v\<close> overwrites in place or appends.\<close>

type_synonym pydict = "(pystr \<times> pyval) list"

definition setitem :: "pydict \<Rightarrow> pystr \<Rightarrow> pyval \<Rightarrow> pydict" where
  "setitem d k v = AList.update k v d"

definition is_scalar :: "pyval \<Rightarrow> bool" where
  "is_scalar v = (case v of
       PyBool _ \<Rightarrow> True | PyInt _ \<Rightarrow> True | PyFloat _ \<Rightarrow> True | PyStr _ \<Rightarrow> True
     | _ \<Rightarrow> False)"

section \<open>Built-in operations of Python used by the notebooks\<close>

text \<open>\<open>str.isspace\<close> on one code point: the Unicode whitespace characters.\<close>

definition isspace :: "nat \<Rightarrow> bool" where
  "isspace c = ((9 \<le> c \<and> c \<le> 13) \<or> (28 \<le> c \<and> c \<le> 32) \<or> c = 133 \<or> c = 160
      \<or> c = 5760 \<or> (8192 \<le> c \<and> c \<le> 8202) \<or> c = 8232 \<or> c = 8233 \<or> c = 8239
      \<or> c = 8287 \<or> c = 12288)"

text \<open>
  \<open>line.split()\<close> with no argument: the maximal runs of non-whitespace characters,
  scanned left to right; \<open>cur\<close> is the token being read.
\<close>

fun split_ws :: "pystr \<Rightarrow> pystr \<Rightarrow> pystr list" where
  "split_ws cur [] = (if cur = [] then [] else [cur])"
| "split_ws cur (c # cs) =
     (if isspace c then (if cur = [] then split_ws [] cs else cur # split_ws [] cs)
      else split_ws (cur @ [c]) cs)"

definition py_split :: "pystr \<Rightarrow> pystr list" where
  "py_split s = split_ws [] s"

text \<open>
  A file opened in text mode with the default \<open>newline=None\<close> translates
  \<open>\r\n\<close> and \<open>\r\<close> to \<open>\n\<close>; \<open>readlines()\<close> then returns the lines with
  their final \<open>\n\<close> kept.
\<close>

fun universal_newlines :: "pystr \<Rightarrow> pystr" where
  "universal_newlines [] = []"
| "universal_newlines [c] = [if c = 13 then 10 else c]"
| "universal_newlines (c # d # cs) =
     (if c = 13 \<and> d = 10 then 10 # universal_newlines cs
      else if c = 13 then 10 # universal_newlines (d # cs)
      else c # universal_newlines (d # cs))"

fun lines_keepends :: "pystr \<Rightarrow> pystr \<Rightarrow> pystr list" where
  "lines_keepends cur [] = (if cur = [] then [] else [cur])"
| "lines_keepends cur (c # cs) =
     (if c = 10 then (cur @ [c]) # lines_keepends [] cs
      else lines_keepends (cur @ [c]) cs)"

definition readlines :: "pystr \<Rightarrow> pystr list" where
  "readlines text = lines_keepends [] (universal_newlines text)"

text \<open>\<open>str.splitlines()\<close>: line boundaries are dropped, \<open>\r\n\<close> is one boundary.\<close>

definition is_linebreak :: "nat \<Rightarrow> bool" where
  "is_linebreak c = ((10 \<le> c \<and> c \<le> 13) \<or> (28 \<le> c \<and> c \<le> 30) \<or> c = 133
      \<or> c = 8232 \<or> c = 8233)"

fun splitlines_from :: "pystr \<Rightarrow> pystr \<Rightarrow> pystr list" where
  "splitlines_from cur [] = (if cur = [] then [] else [cur])"
| "splitlines_from cur [c] = (if is_linebreak c then [cur] else [cur @ [c]])"
| "splitlines_from cur (c # d # cs) =
     (if c = 13 \<and> d = 10 then cur # splitlines_from [] cs
      else if is_linebreak c then cur # splitlines_from [] (d # cs)
      else splitlines_from (cur @ [c]) (d # cs))"

definition splitlines :: "pystr \<Rightarrow> pystr list" where
  "splitlines text = splitlines_from [] text"

text \<open>\<open>xs[i]\<close>: a negative index counts from the end, out of range raises.\<close>

definition getitem :: "'a list \<Rightarrow> int \<Rightarrow> pyerr + 'a" where
  "getitem xs i =
     (if 0 \<le> i \<and> i < int (length xs) then Inr (xs ! nat i)
      else if i < 0 \<and> - int (length xs) \<le> i then Inr (xs ! nat (int (length xs) + i))
      else Inl IndexError)"

text \<open>\<open>xs[1:]\<close> never raises: an empty list stays empty.\<close>

definition slice_from :: "nat \<Rightarrow> 'a list \<Rightarrow> 'a list" where
  "slice_from n xs = drop n xs"

definition startswith :: "pystr \<Rightarrow> pystr \<Rightarrow> bool" where
  "startswith s p = prefix p s"

section \<open>XGBoost notebook: the pure parts of the cells\<close>

text \<open>
  \<^verbatim>\<open>
  feature_names = []
  with open('machine.featmap.txt') as f:
      for line in f.readlines():
          feature_name = line.split()[1]
          feature_names.append(feature_name)
  \<close>
  The loop over the lines, with the list built so far.
\<close>

fun feature_names_loop :: "pystr list \<Rightarrow> pystr list \<Rightarrow> pyerr + pystr list" where
  "feature_names_loop feature_names [] = Inr feature_names"
| "feature_names_loop feature_names (line # rest) =
     (case getitem (py_split line) 1 of
        Inl e \<Rightarrow> Inl e
      | Inr feature_name \<Rightarrow> feature_names_loop (feature_names @ [feature_name]) rest)"

definition feature_names_of :: "pystr \<Rightarrow> pyerr + pystr list" where
  "feature_names_of text = feature_names_loop [] (readlines text)"

text \<open>
  \<^verbatim>\<open>
  example = {'MYCT': 125, 'MMIN': 256, 'MMAX': 6000, 'CACH': 256, 'CHMIN': 16, 'CHMAX': 128}
  for feature_name in feature_names:
      if feature_name == 'vendor:ibm':
          example[feature_name] = 1
      elif feature_name.startswith('vendor'):
          example[feature_name] = 0
  \<close>
\<close>

definition example_literal :: pydict where
  "example_literal =
     [(lit ''MYCT'', PyInt 125), (lit ''MMIN'', PyInt 256), (lit ''MMAX'', PyInt 6000),
      (lit ''CACH'', PyInt 256), (lit ''CHMIN'', PyInt 16), (lit ''CHMAX'', PyInt 128)]"

fun example_loop :: "pydict \<Rightarrow> pystr list \<Rightarrow> pydict" where
  "example_loop example [] = example"
| "example_loop example (feature_name # rest) =
     (if feature_name = lit ''vendor:ibm''
        then example_loop (setitem example feature_name (PyInt 1)) rest
      else if startswith feature_name (lit ''vendor'')
        then example_loop (setitem example feature_name (PyInt 0)) rest
      else example_loop example rest)"

definition example_of :: "pystr list \<Rightarrow> pydict" where
  "example_of feature_names = example_loop example_literal feature_names"

section \<open>PyTorch notebook: the class labels\<close>

text \<open>
  \<^verbatim>\<open>
  class_labels = urllib.request.urlopen(label_url).read().decode("utf-8").splitlines()
  class_labels = class_labels[1:] # remove the first class which is background
  assert len(class_labels) == 1000
  \<close>
  From the decoded text on.
\<close>

definition class_labels_of :: "pystr \<Rightarrow> pyerr + pystr list" where
  "class_labels_of text =
     (let class_labels = splitlines text;
          class_labels = slice_from 1 class_labels
      in if length class_labels = 1000 then Inr class_labels else Inl AssertionError)"

section \<open>External calls, the world and runs\<close>

text \<open>
  Everything a notebook does outside its own list and dict handling is a call into a
  library, the Python runtime or Jupyter: \<open>(f, args, kwargs)\<close>. An \<open>import\<close>
  statement is the call \<open>''import''\<close>; the value of the last expression of a cell is
  shown by the call \<open>''display''\<close>.
\<close>

type_synonym call = "string \<times> pyval list \<times> (string \<times> pyval) list"

text \<open>
  The world of one run: the platform string, for each call (given the calls made before
  it) whether it raises, the decoded text of a file by name, the decoded text served at a
  URL, and the integers an opaque array yields when iterated.
\<close>

record world =
  platform :: pystr
  raises :: "call list \<Rightarrow> call \<Rightarrow> pyerr option"
  file_text :: "pystr \<Rightarrow> pystr"
  url_text :: "pystr \<Rightarrow> pystr"
  array_ints :: "pyval \<Rightarrow> int list"

text \<open>
  A notebook computation takes the calls made so far and returns them extended, with
  either the exception that ended it or its value. The code has no \<open>try\<close>, so an
  exception ends everything that follows (\<open>nb_seq\<close>). The context managers of the two
  \<open>with\<close> statements (a file object, \<open>torch.no_grad()\<close>) only release a resource on
  exit; entering and leaving them is not recorded.
\<close>

type_synonym 'a nb = "call list \<Rightarrow> call list \<times> (pyerr + 'a)"

definition nb_pure :: "'a \<Rightarrow> 'a nb" where
  "nb_pure x = (\<lambda>h. (h, Inr x))"

definition nb_lift :: "pyerr + 'a \<Rightarrow> 'a nb" where
  "nb_lift r = (\<lambda>h. (h, r))"

definition nb_seq :: "'a nb \<Rightarrow> ('a \<Rightarrow> 'b nb) \<Rightarrow> 'b nb" where
  "nb_seq m k = (\<lambda>h. case m h of (h', Inl e) \<Rightarrow> (h', Inl e) | (h', Inr x) \<Rightarrow> k x h')"

definition ext_call :: "world \<Rightarrow> string \<Rightarrow> pyval list \<Rightarrow> (string \<times> pyval) list \<Rightarrow> pyval nb" where
  "ext_call w f args kwargs =
     (\<lambda>h. case raises w h (f, args, kwargs) of
            Some e \<Rightarrow> (h @ [(f, args, kwargs)], Inl e)
          | None \<Rightarrow> (h @ [(f, args, kwargs)], Inr (PyObj f args kwargs)))"

text \<open>The object a call returned.\<close>

definition returned :: "call \<Rightarrow> pyval" where
  "returned c = (case c of (f, args, kwargs) \<Rightarrow> PyObj f args kwargs)"

definition import_module :: "world \<Rightarrow> string \<Rightarrow> pyval nb" where
  "import_module w name = ext_call w ''import'' [PyStr (lit name)] []"

definition display :: "world \<Rightarrow> pyval \<Rightarrow> pyval nb" where
  "display w v = ext_call w ''display'' [v] []"

definition trace_of :: "'a nb \<Rightarrow> call list" where
  "trace_of m = fst (m [])"

definition result_of :: "'a nb \<Rightarrow> pyerr + 'a" where
  "result_of m = snd (m [])"

text \<open>
  \<^verbatim>\<open>import sys; IS_MACOS = sys.platform == 'darwin'\<close>: \<open>sys\<close> is the
  interpreter's own module, so this import is not a call into a library.
\<close>

definition IS_MACOS :: "world \<Rightarrow> bool" where
  "IS_MACOS w = (platform w = lit ''darwin'')"

definition placeholder :: pyval where
  "placeholder = PyStr (lit ''Skipping prediction on non-macOS system'')"

section \<open>The XGBoost notebook, cell by cell\<close>

definition xgb_cell_imports :: "world \<Rightarrow> unit nb" where
  "xgb_cell_imports w =
     nb_seq (import_module w ''xgboost'') (\<lambda>xgb.
     nb_seq (import_module w ''matplotlib.pyplot'') (\<lambda>plt.
     nb_pure ()))"

definition xgb_cell_load :: "world \<Rightarrow> (pyval \<times> pyval) nb" where
  "xgb_cell_load w =
     nb_seq (ext_call w ''xgb.DMatrix'' [PyStr (lit ''machine.txt.train'')] []) (\<lambda>dtrain.
     nb_seq (ext_call w ''xgb.DMatrix'' [PyStr (lit ''machine.txt.test'')] []) (\<lambda>dtest.
     nb_pure (dtrain, dtest)))"

definition param :: pydict where
  "param =
     [(lit ''objective'', PyStr (lit ''reg:squarederror'')),
      (lit ''eta'', PyStr (lit ''1.0'')),
      (lit ''gamma'', PyFloat ''1.0''),
      (lit ''min_child_weight'', PyInt 1),
      (lit ''max_depth'', PyInt 3)]"

definition xgb_cell_train :: "world \<Rightarrow> pyval \<Rightarrow> pyval nb" where
  "xgb_cell_train w dtrain =
     ext_call w ''xgb.train'' [PyDict param, dtrain] [(''num_boost_round'', PyInt 2)]"

definition xgb_cell_plot :: "world \<Rightarrow> pyval \<Rightarrow> unit nb" where
  "xgb_cell_plot w bst_model =
     nb_seq (ext_call w ''xgb.plot_tree'' [bst_model, PyStr (lit ''machine.featmap.txt'')] []) (\<lambda>ax.
     nb_seq (ext_call w ''plt.gcf'' [] []) (\<lambda>fig.
     nb_seq (ext_call w ''.set_size_inches'' [fig, PyInt 20, PyInt 40] []) (\<lambda>u.
     nb_seq (ext_call w ''plt.show'' [] []) (\<lambda>u.
     nb_pure ()))))"

definition xgb_cell_accuracy :: "world \<Rightarrow> pyval \<Rightarrow> pyval \<Rightarrow> pyval nb" where
  "xgb_cell_accuracy w bst_model dtrain =
     nb_seq (ext_call w ''.predict'' [bst_model, dtrain] []) (\<lambda>prediction.
     nb_seq (ext_call w ''.get_label'' [dtrain] []) (\<lambda>actual.
     nb_seq (ext_call w ''.__sub__'' [prediction, actual] []) (\<lambda>error.
     nb_seq (ext_call w ''.mean'' [error] []) (\<lambda>mean.
     nb_seq (ext_call w ''.std'' [error] []) (\<lambda>std.
     nb_seq (ext_call w ''print''
               [PyStr (lit ''mean error:''), mean, PyStr (lit ''stdev error:''), std] []) (\<lambda>u.
     nb_seq (ext_call w ''plt.hist'' [error] []) (\<lambda>u.
     nb_seq (ext_call w ''plt.xlabel'' [PyStr (lit ''prediction - actual'')] []) (\<lambda>u.
     nb_seq (ext_call w ''plt.show'' [] []) (\<lambda>u.
     nb_pure prediction)))))))))"

definition xgb_cell_feature_names :: "world \<Rightarrow> pystr list nb" where
  "xgb_cell_feature_names w =
     nb_seq (ext_call w ''open'' [PyStr (lit ''machine.featmap.txt'')] []) (\<lambda>f.
     nb_seq (ext_call w ''.readlines'' [f] []) (\<lambda>u.
     nb_seq (nb_lift (feature_names_of (file_text w (lit ''machine.featmap.txt'')))) (\<lambda>feature_names.
     nb_seq (display w (PyList (map PyStr feature_names))) (\<lambda>u.
     nb_pure feature_names))))"

definition xgb_cell_convert :: "world \<Rightarrow> pyval \<Rightarrow> pystr list \<Rightarrow> pyval nb" where
  "xgb_cell_convert w bst_model feature_names =
     nb_seq (import_module w ''coremltools'') (\<lambda>ct.
     ext_call w ''ct.converters.xgboost.convert'' [bst_model]
       [(''feature_names'', PyList (map PyStr feature_names)),
        (''target'', PyStr (lit ''perf'')),
        (''mode'', PyStr (lit ''regressor''))])"

definition xgb_cell_show :: "world \<Rightarrow> pyval \<Rightarrow> pyval nb" where
  "xgb_cell_show w cml_model = display w cml_model"

definition xgb_cell_save :: "world \<Rightarrow> pyval \<Rightarrow> pyval nb" where
  "xgb_cell_save w cml_model =
     ext_call w ''.save'' [cml_model, PyStr (lit ''machine.mlmodel'')] []"

definition xgb_cell_example :: "pystr list \<Rightarrow> pydict nb" where
  "xgb_cell_example feature_names = nb_pure (example_of feature_names)"

definition xgb_cell_predict :: "world \<Rightarrow> pydict \<Rightarrow> pyval nb" where
  "xgb_cell_predict w example =
    (if IS_MACOS w then
       nb_seq (ext_call w ''ct.models.MLModel'' [PyStr (lit ''machine.mlmodel'')] []) (\<lambda>loaded_model.
       nb_seq (ext_call w ''.predict'' [loaded_model, PyDict example] []) (\<lambda>prediction.
       nb_seq (ext_call w ''print'' [PyStr (lit ''prediction:''), prediction] []) (\<lambda>u.
       nb_pure prediction)))
     else nb_pure placeholder)"

text \<open>The globals left by a complete run (those the cells after training define).\<close>

record xgb_globals =
  g_bst_model :: pyval
  g_feature_names :: "pystr list"
  g_cml_model :: pyval
  g_example :: pydict
  g_prediction :: pyval

definition xgboost_notebook :: "world \<Rightarrow> xgb_globals nb" where
  "xgboost_notebook w =
     nb_seq (xgb_cell_imports w) (\<lambda>u.
     nb_seq (xgb_cell_load w) (\<lambda>(dtrain, dtest).
     nb_seq (xgb_cell_train w dtrain) (\<lambda>bst_model.
     nb_seq (xgb_cell_plot w bst_model) (\<lambda>u.
     nb_seq (xgb_cell_accuracy w bst_model dtrain) (\<lambda>prediction.
     nb_seq (xgb_cell_feature_names w) (\<lambda>feature_names.
     nb_seq (xgb_cell_convert w bst_model feature_names) (\<lambda>cml_model.
     nb_seq (xgb_cell_show w cml_model) (\<lambda>u.
     nb_seq (xgb_cell_save w cml_model) (\<lambda>u.
     nb_seq (xgb_cell_example feature_names) (\<lambda>example.
     nb_seq (xgb_cell_predict w example) (\<lambda>prediction.
     nb_pure \<lparr>g_bst_model = bst_model, g_feature_names = feature_names,
              g_cml_model = cml_model, g_example = example,
              g_prediction = prediction\<rparr>)))))))))))"

section \<open>The PyTorch notebook, cell by cell\<close>

definition input_shape :: "pyval list" where
  "input_shape = [PyInt 3, PyInt 224, PyInt 224]"

definition pt_cell_model :: "world \<Rightarrow> pyval nb" where
  "pt_cell_model w =
     nb_seq (import_module w ''tensorflow'') (\<lambda>tf.
     nb_seq (import_module w ''torch'') (\<lambda>torch.
     nb_seq (import_module w ''torchvision'') (\<lambda>torchvision.
     nb_seq (ext_call w ''torch.hub.load''
               [PyStr (lit ''pytorch/vision:v0.6.0''), PyStr (lit ''mobilenet_v2'')]
               [(''pretrained'', PyBool True)]) (\<lambda>mobilenet.
     nb_seq (ext_call w ''torch.nn.Softmax'' [] [(''dim'', PyInt 1)]) (\<lambda>softmax.
     nb_seq (ext_call w ''torch.nn.Sequential'' [mobilenet, softmax] []) (\<lambda>torch_model.
     nb_seq (ext_call w ''.eval'' [torch_model] []) (\<lambda>u.
     nb_seq (display w torch_model) (\<lambda>u.
     nb_pure torch_model))))))))"

definition label_url :: pystr where
  "label_url = lit ''https://storage.googleapis.com/download.tensorflow.org/data/ImageNetLabels.txt''"

definition pt_cell_labels :: "world \<Rightarrow> pystr list nb" where
  "pt_cell_labels w =
     nb_seq (import_module w ''urllib'') (\<lambda>urllib.
     nb_seq (ext_call w ''urllib.request.urlopen'' [PyStr label_url] []) (\<lambda>response.
     nb_seq (ext_call w ''.read'' [response] []) (\<lambda>body.
     nb_seq (ext_call w ''.decode'' [body, PyStr (lit ''utf-8'')] []) (\<lambda>u.
     nb_lift (class_labels_of (url_text w label_url))))))"

definition pt_cell_image :: "world \<Rightarrow> pyval nb" where
  "pt_cell_image w =
     nb_seq (import_module w ''PIL'') (\<lambda>pil.
     nb_seq (ext_call w ''PIL.Image.open'' [PyStr (lit ''Dog.jpg'')] []) (\<lambda>opened.
     nb_seq (ext_call w ''.resize'' [opened, PyTuple (slice_from 1 input_shape)] []) (\<lambda>img.
     nb_seq (display w img) (\<lambda>u.
     nb_pure img))))"

text \<open>
  \<^verbatim>\<open>
  for i in top_5_indices:
      print(class_labels[i], out[i])
  \<close>
\<close>

fun pt_print_loop :: "world \<Rightarrow> pystr list \<Rightarrow> pyval \<Rightarrow> int list \<Rightarrow> unit nb" where
  "pt_print_loop w class_labels out [] = nb_pure ()"
| "pt_print_loop w class_labels out (i # rest) =
     nb_seq (nb_lift (getitem class_labels i)) (\<lambda>label.
     nb_seq (ext_call w ''.__getitem__'' [out, PyInt i] []) (\<lambda>score.
     nb_seq (ext_call w ''print'' [PyStr label, score] []) (\<lambda>u.
     pt_print_loop w class_labels out rest)))"

definition pt_cell_test :: "world \<Rightarrow> pyval \<Rightarrow> pystr list \<Rightarrow> pyval \<Rightarrow> unit nb" where
  "pt_cell_test w torch_model class_labels img =
     nb_seq (import_module w ''numpy'') (\<lambda>np.
     nb_seq (import_module w ''torchvision.transforms'') (\<lambda>transforms.
     nb_seq (ext_call w ''transforms.ToTensor'' [] []) (\<lambda>to_tensor.
     nb_seq (ext_call w ''transforms.Normalize'' []
               [(''mean'', PyTuple [PyFloat ''0.485'', PyFloat ''0.456'', PyFloat ''0.406'']),
                (''std'', PyTuple [PyFloat ''0.229'', PyFloat ''0.224'', PyFloat ''0.225''])]) (\<lambda>normalize.
     nb_seq (ext_call w ''transforms.Compose'' [PyList [to_tensor, normalize]] []) (\<lambda>preprocess.
     nb_seq (ext_call w ''.__call__'' [preprocess, img] []) (\<lambda>input_tensor.
     nb_seq (ext_call w ''.unsqueeze'' [input_tensor, PyInt 0] []) (\<lambda>input_batch.
     nb_seq (ext_call w ''torch.no_grad'' [] []) (\<lambda>ctx.
     nb_seq (ext_call w ''.__call__'' [torch_model, input_batch] []) (\<lambda>batch_out.
     nb_seq (ext_call w ''.__getitem__'' [batch_out, PyInt 0] []) (\<lambda>first_out.
     nb_seq (ext_call w ''.numpy'' [first_out] []) (\<lambda>out.
     nb_seq (ext_call w ''np.argsort'' [out] []) (\<lambda>order.
     nb_seq (ext_call w ''np.flip'' [order] []) (\<lambda>flipped.
     nb_seq (ext_call w ''.__getitem__'' [flipped, PyObj ''slice'' [PyNone, PyInt 5] []] []) (\<lambda>top_5_indices.
     pt_print_loop w class_labels out (array_ints w top_5_indices)))))))))))))))"

text \<open>Float expressions over literals are kept as written: \<open>a / b\<close> and \<open>-a\<close>.\<close>

definition fdiv :: "pyval \<Rightarrow> pyval \<Rightarrow> pyval" where
  "fdiv a b = PyObj ''/'' [a, b] []"

definition fneg :: "pyval \<Rightarrow> pyval" where
  "fneg a = PyObj ''-'' [a] []"

definition pt_cell_convert :: "world \<Rightarrow> pyval \<Rightarrow> pystr list \<Rightarrow> pyval nb" where
  "pt_cell_convert w torch_model class_labels =
     nb_seq (import_module w ''coremltools'') (\<lambda>ct.
     nb_seq (ext_call w ''torch.rand'' (PyInt 1 # input_shape) []) (\<lambda>example_input.
     nb_seq (ext_call w ''torch.jit.trace'' [torch_model, example_input] []) (\<lambda>traced_model.
     nb_seq (ext_call w ''getattr'' [example_input, PyStr (lit ''shape'')] []) (\<lambda>shape.
     nb_seq (ext_call w ''ct.ImageType'' []
               [(''color_layout'', PyStr (lit ''RGB'')),
                (''scale'', fdiv (fdiv (PyFloat ''1.0'') (PyFloat ''255.0'')) (PyFloat ''0.226'')),
                (''bias'', PyTuple [fdiv (fneg (PyFloat ''0.485'')) (PyFloat ''0.226''),
                                    fdiv (fneg (PyFloat ''0.456'')) (PyFloat ''0.226''),
                                    fdiv (fneg (PyFloat ''0.406'')) (PyFloat ''0.226'')]),
                (''shape'', shape)]) (\<lambda>image_type.
     nb_seq (ext_call w ''ct.ClassifierConfig'' [PyList (map PyStr class_labels)] []) (\<lambda>config.
     ext_call w ''ct.convert'' [traced_model]
       [(''inputs'', PyList [image_type]), (''classifier_config'', config)]))))))"

definition pt_cell_show :: "world \<Rightarrow> pyval \<Rightarrow> pyval nb" where
  "pt_cell_show w cml_model = display w cml_model"

definition pt_cell_save :: "world \<Rightarrow> pyval \<Rightarrow> pyval nb" where
  "pt_cell_save w cml_model =
     ext_call w ''.save'' [cml_model, PyStr (lit ''MobileNet_v2_torch.mlmodel'')] []"

definition pt_cell_predict :: "world \<Rightarrow> pyval \<Rightarrow> pyval nb" where
  "pt_cell_predict w img =
    (if IS_MACOS w then
       nb_seq (ext_call w ''ct.models.MLModel'' [PyStr (lit ''MobileNet_v2_torch.mlmodel'')] []) (\<lambda>loaded_model.
       nb_seq (ext_call w ''.predict'' [loaded_model, PyDict [(lit ''input.1'', img)]] []) (\<lambda>prediction.
       nb_seq (ext_call w ''.__getitem__'' [prediction, PyStr (lit ''classLabel'')] []) (\<lambda>top.
       nb_seq (ext_call w ''print'' [PyStr (lit ''top prediction:''), top] []) (\<lambda>u.
       nb_pure prediction))))
     else nb_pure placeholder)"

record pt_globals =
  g_torch_model :: pyval
  g_class_labels :: "pystr list"
  g_img :: pyval
  g_pt_cml_model :: pyval
  g_pt_prediction :: pyval

definition pytorch_notebook :: "world \<Rightarrow> pt_globals nb" where
  "pytorch_notebook w =
     nb_seq (pt_cell_model w) (\<lambda>torch_model.
     nb_seq (pt_cell_labels w) (\<lambda>class_labels.
     nb_seq (pt_cell_image w) (\<lambda>img.
     nb_seq (pt_cell_test w torch_model class_labels img) (\<lambda>u.
     nb_seq (pt_cell_convert w torch_model class_labels) (\<lambda>cml_model.
     nb_seq (pt_cell_show w cml_model) (\<lambda>u.
     nb_seq (pt_cell_save w cml_model) (\<lambda>u.
     nb_seq (pt_cell_predict w img) (\<lambda>prediction.
     nb_pure \<lparr>g_torch_model = torch_model, g_class_labels = class_labels, g_img = img,
              g_pt_cml_model = cml_model, g_pt_prediction = prediction\<rparr>))))))))"

section \<open>What a call does to files and the network\<close>

text \<open>
  The file a call reads, by the library functions the notebooks use: each takes the file
  name as a literal argument.
\<close>

definition file_read :: "call \<Rightarrow> pystr option" where
  "file_read c =
     (case c of (f, args, kwargs) \<Rightarrow>
        if f = ''xgb.DMatrix'' \<or> f = ''open'' \<or> f = ''ct.models.MLModel'' \<or> f = ''PIL.Image.open''
        then (case args of [PyStr name] \<Rightarrow> Some name | _ \<Rightarrow> None)
        else if f = ''xgb.plot_tree''
        then (case args of [model, PyStr name] \<Rightarrow> Some name | _ \<Rightarrow> None)
        else None)"

definition file_written :: "call \<Rightarrow> pystr option" where
  "file_written c =
     (case c of (f, args, kwargs) \<Rightarrow>
        if f = ''.save'' then (case args of [model, PyStr name] \<Rightarrow> Some name | _ \<Rightarrow> None)
        else None)"

definition is_network :: "call \<Rightarrow> bool" where
  "is_network c = (fst c = ''urllib.request.urlopen'' \<or> fst c = ''torch.hub.load'')"

definition files_read :: "call list \<Rightarrow> pystr set" where
  "files_read t = set (List.map_filter file_read t)"

definition files_written :: "call list \<Rightarrow> pystr set" where
  "files_written t = set (List.map_filter file_written t)"

text \<open>Reloading an artifact, and the calls of the guarded final cells.\<close>

definition is_reload :: "call \<Rightarrow> bool" where
  "is_reload c = (fst c = ''ct.models.MLModel'')"

definition xgb_reload_call :: call where
  "xgb_reload_call = (''ct.models.MLModel'', [PyStr (lit ''machine.mlmodel'')], [])"

definition xgb_predict_call :: "pydict \<Rightarrow> call" where
  "xgb_predict_call example =
     (''.predict'',
      [PyObj ''ct.models.MLModel'' [PyStr (lit ''machine.mlmodel'')] [], PyDict example], [])"

definition pt_reload_call :: call where
  "pt_reload_call = (''ct.models.MLModel'', [PyStr (lit ''MobileNet_v2_torch.mlmodel'')], [])"

definition pt_predict_call :: "pyval \<Rightarrow> call" where
  "pt_predict_call img =
     (''.predict'',
      [PyObj ''ct.models.MLModel'' [PyStr (lit ''MobileNet_v2_torch.mlmodel'')] [],
       PyDict [(lit ''input.1'', img)]], [])"

definition hub_load_call :: call where
  "hub_load_call =
     (''torch.hub.load'', [PyStr (lit ''pytorch/vision:v0.6.0''), PyStr (lit ''mobilenet_v2'')],
      [(''pretrained'', PyBool True)])"

definition urlopen_call :: call where
  "urlopen_call = (''urllib.request.urlopen'', [PyStr label_url], [])"

definition train_call :: call where
  "train_call =
     (''xgb.train'',
      [PyDict param, PyObj ''xgb.DMatrix'' [PyStr (lit ''machine.txt.train'')] []],
      [(''num_boost_round'', PyInt 2)])"

definition convert_kwargs :: "pystr list \<Rightarrow> (string \<times> pyval) list" where
  "convert_kwargs names =
     [(''feature_names'', PyList (map PyStr names)), (''target'', PyStr (lit ''perf'')),
      (''mode'', PyStr (lit ''regressor''))]"

text \<open>
  The pipeline steps in the order the specification lists them: load data (1), train or
  build the model (2), convert (3), save the artifact (4), reload and predict (5). A step
  is recognised by the library function that starts it; the reload starts step 5, and the
  prediction takes the reloaded model as its argument. The feature map and the class
  labels are metadata of the conversion, not data; calls that start no step have no
  number.
\<close>

definition spec_stage :: "call \<Rightarrow> nat option" where
  "spec_stage c =
     (if fst c = ''xgb.DMatrix'' \<or> fst c = ''PIL.Image.open'' then Some 1
      else if fst c = ''xgb.train'' \<or> fst c = ''torch.hub.load'' \<or> fst c = ''torch.nn.Sequential''
        then Some 2
      else if fst c = ''ct.converters.xgboost.convert'' \<or> fst c = ''ct.convert'' then Some 3
      else if fst c = ''.save'' then Some 4
      else if fst c = ''ct.models.MLModel'' then Some 5
      else None)"

text \<open>The order the PyTorch notebook has: the model is built before the image is loaded.\<close>

definition pt_stage :: "call \<Rightarrow> nat option" where
  "pt_stage c =
     (if fst c = ''torch.hub.load'' \<or> fst c = ''torch.nn.Sequential'' then Some 1
      else if fst c = ''PIL.Image.open'' then Some 2
      else spec_stage c)"

definition stages :: "(call \<Rightarrow> nat option) \<Rightarrow> call list \<Rightarrow> nat list" where
  "stages st t = List.map_filter st t"

text \<open>Every reload of the artifact comes after a save of that file.\<close>

definition saved_before_use :: "pystr \<Rightarrow> call list \<Rightarrow> bool" where
  "saved_before_use artifact t =
     (\<forall>i<length t. is_reload (t ! i) \<longrightarrow> (\<exists>j<i. file_written (t ! j) = Some artifact))"

section \<open>The feature names as the specification words them\<close>

text \<open>
  The whitespace-separated tokens of a line, said without the scanner: cut the line at
  every whitespace character and drop the empty pieces.
\<close>

fun fields :: "pystr \<Rightarrow> pystr list" where
  "fields [] = [[]]"
| "fields (c # cs) =
     (if isspace c then [] # fields cs
      else (case fields cs of f # fs \<Rightarrow> (c # f) # fs | [] \<Rightarrow> [[c]]))"

definition spec_tokens :: "pystr \<Rightarrow> pystr list" where
  "spec_tokens line = filter (\<lambda>f. f \<noteq> []) (fields line)"

definition spec_second_tokens :: "pystr \<Rightarrow> pystr list" where
  "spec_second_tokens text = map (\<lambda>line. spec_tokens line ! 1) (readlines text)"

section \<open>Reasoning about runs\<close>

text \<open>
  \<open>emits Q m R\<close>: whatever came before, \<open>m\<close> only adds calls, each of them satisfies
  \<open>Q\<close>, and a value it returns satisfies \<open>R\<close>.
\<close>

definition emits :: "(call \<Rightarrow> bool) \<Rightarrow> 'a nb \<Rightarrow> ('a \<Rightarrow> bool) \<Rightarrow> bool" where
  "emits Q m R =
     (\<forall>h. \<exists>new. fst (m h) = h @ new \<and> list_all Q new \<and>
        (\<forall>x. snd (m h) = Inr x \<longrightarrow> R x))"

text \<open>
  \<open>propagates w m\<close>: when a call made by \<open>m\<close> raises, it is the last call \<open>m\<close> makes
  and its exception is the outcome of \<open>m\<close>.
\<close>

definition propagates :: "world \<Rightarrow> 'a nb \<Rightarrow> bool" where
  "propagates w m =
     (\<forall>h. \<exists>new. fst (m h) = h @ new \<and>
        (\<forall>i<length new. \<forall>e. raises w (h @ take i new) (new ! i) = Some e \<longrightarrow>
           snd (m h) = Inl e \<and> Suc i = length new))"

text \<open>
  \<open>yields m S\<close>: when \<open>m\<close> returns \<open>x\<close>, the calls it added and \<open>x\<close> satisfy \<open>S\<close>.
\<close>

definition yields :: "'a nb \<Rightarrow> (call list \<Rightarrow> 'a \<Rightarrow> bool) \<Rightarrow> bool" where
  "yields m S = (\<forall>h h' x. m h = (h', Inr x) \<longrightarrow> (\<exists>new. h' = h @ new \<and> S new x))"

text \<open>\<open>appends P m\<close>: \<open>m\<close> only adds calls, and the calls it adds satisfy \<open>P\<close>.\<close>

definition appends :: "(call list \<Rightarrow> bool) \<Rightarrow> 'a nb \<Rightarrow> bool" where
  "appends P m = (\<forall>h. \<exists>new. fst (m h) = h @ new \<and> P new)"

text \<open>A call list whose numbered steps are in order and not below \<open>a\<close>.\<close>

definition ordered_from :: "(call \<Rightarrow> nat option) \<Rightarrow> nat \<Rightarrow> call list \<Rightarrow> bool" where
  "ordered_from st a t = (sorted (stages st t) \<and> list_all (\<lambda>s. a \<le> s) (stages st t))"

definition in_stage :: "(call \<Rightarrow> nat option) \<Rightarrow> nat \<Rightarrow> call \<Rightarrow> bool" where
  "in_stage st a c = (st c = None \<or> st c = Some a)"

section \<open>Example worlds\<close>

text \<open>A three-line feature map, and 1001 empty lines as the label file.\<close>

definition featmap_text :: pystr where
  "featmap_text =
     lit ''0 MYCT int'' @ [10] @ lit ''1 vendor:ibm i'' @ [10] @ lit ''2 vendor:hp i'' @ [10]"

definition linux_world :: world where
  "linux_world =
     \<lparr>platform = lit ''linux'', raises = (\<lambda>h c. None), file_text = (\<lambda>name. featmap_text),
      url_text = (\<lambda>url. replicate 1001 10), array_ints = (\<lambda>a. [0, 1, 2, 3, 4])\<rparr>"

definition macos_world :: world where
  "macos_world = linux_world\<lparr>platform := lit ''darwin''\<rparr>"

text \<open>\<open>open('machine.featmap.txt')\<close> raises \<open>FileNotFoundError\<close> (errno 2).\<close>

definition open_fails_world :: world where
  "open_fails_world =
     linux_world\<lparr>raises := (\<lambda>h c. if fst c = ''open'' then Some (OSError 2) else None)\<rparr>"

section \<open>Lists, strings and dicts\<close>

lemma getitem_1: "getitem xs 1 = (if 2 \<le> length xs then Inr (xs ! 1) else Inl IndexError)"
  by (auto simp: getitem_def)

lemma feature_names_loop_eq:
  "feature_names_loop acc ls =
     (if \<forall>l\<in>set ls. 2 \<le> length (py_split l)
      then Inr (acc @ map (\<lambda>l. py_split l ! 1) ls) else Inl IndexError)"
  by (induction ls arbitrary: acc) (auto simp: getitem_1)

lemma feature_names_of_eq:
  "feature_names_of text =
     (if \<forall>l\<in>set (readlines text). 2 \<le> length (py_split l)
      then Inr (map (\<lambda>l. py_split l ! 1) (readlines text)) else Inl IndexError)"
  by (simp add: feature_names_of_def feature_names_loop_eq)

lemma splitlines_replicate: "splitlines_from [] (replicate n 10) = replicate n []"
proof (induction n rule: less_induct)
  case (less n)
  show ?case
  proof (cases n)
    case 0 then show ?thesis by simp
  next
    case (Suc m)
    show ?thesis
    proof (cases m)
      case 0 with Suc show ?thesis by (simp add: is_linebreak_def)
    next
      case (Suc k)
      with \<open>n = Suc m\<close> less.IH[of m] show ?thesis by (simp add: is_linebreak_def)
    qed
  qed
qed

lemma map_of_setitem: "map_of (setitem d k v) = (map_of d)(k \<mapsto> v)"
  by (simp add: setitem_def update_conv')

lemma example_loop_lookup:
  "map_of (example_loop d ns) k =
     (if k \<in> set ns \<and> k = lit ''vendor:ibm'' then Some (PyInt 1)
      else if k \<in> set ns \<and> startswith k (lit ''vendor'') then Some (PyInt 0)
      else map_of d k)"
  by (induction ns arbitrary: d) (auto simp: map_of_setitem)

lemma example_literal_lookup:
  "map_of example_literal k =
     (if k = lit ''MYCT'' then Some (PyInt 125) else if k = lit ''MMIN'' then Some (PyInt 256)
      else if k = lit ''MMAX'' then Some (PyInt 6000) else if k = lit ''CACH'' then Some (PyInt 256)
      else if k = lit ''CHMIN'' then Some (PyInt 16) else if k = lit ''CHMAX'' then Some (PyInt 128)
      else None)"
  by (simp add: example_literal_def)

lemma literal_keys_not_vendor:
  "\<not> startswith (lit ''MYCT'') (lit ''vendor'')" "\<not> startswith (lit ''MMIN'') (lit ''vendor'')"
  "\<not> startswith (lit ''MMAX'') (lit ''vendor'')" "\<not> startswith (lit ''CACH'') (lit ''vendor'')"
  "\<not> startswith (lit ''CHMIN'') (lit ''vendor'')" "\<not> startswith (lit ''CHMAX'') (lit ''vendor'')"
  by (simp_all add: startswith_def lit_def)

lemma example_of_lookup:
  "map_of (example_of ns) k =
     (if k \<in> set ns \<and> k = lit ''vendor:ibm'' then Some (PyInt 1)
      else if k \<in> set ns \<and> startswith k (lit ''vendor'') then Some (PyInt 0)
      else map_of example_literal k)"
  by (simp add: example_of_def example_loop_lookup)

lemma example_of_vendor:
  assumes "map_of (example_of ns) k = Some v" "startswith k (lit ''vendor'')"
  shows "v = (if k = lit ''vendor:ibm'' then PyInt 1 else PyInt 0)"
proof -
  from assms(2) have "map_of example_literal k = None"
    using literal_keys_not_vendor by (auto simp: example_literal_lookup)
  with assms show ?thesis
    by (auto simp: example_of_lookup split: if_splits)
qed

lemma distinct_setitem: "distinct (map fst d) \<Longrightarrow> distinct (map fst (setitem d k v))"
  by (simp add: setitem_def distinct_update)

lemma distinct_example_loop: "distinct (map fst d) \<Longrightarrow> distinct (map fst (example_loop d ns))"
  by (induction ns arbitrary: d) (auto simp: distinct_setitem)

lemma distinct_example_literal: "distinct (map fst example_literal)"
  by (simp add: example_literal_def lit_def)

text \<open>
  C9: after the loop over any list of feature names, a key of \<open>example\<close> that starts
  with \<open>vendor\<close> holds 1 if it is \<open>vendor:ibm\<close> and 0 otherwise, so at most one such
  key holds 1; the six literal entries keep their literal values; and the keys stay
  distinct.
\<close>

theorem example_one_hot_vendor:
  "(\<forall>k v. map_of (example_of ns) k = Some v \<and> startswith k (lit ''vendor'') \<longrightarrow>
      v = (if k = lit ''vendor:ibm'' then PyInt 1 else PyInt 0))
   \<and> (\<forall>k k'. startswith k (lit ''vendor'') \<and> startswith k' (lit ''vendor'')
         \<and> map_of (example_of ns) k = Some (PyInt 1) \<and> map_of (example_of ns) k' = Some (PyInt 1)
         \<longrightarrow> k = k')
   \<and> map_of (example_of ns) (lit ''MYCT'') = Some (PyInt 125)
   \<and> map_of (example_of ns) (lit ''MMIN'') = Some (PyInt 256)
   \<and> map_of (example_of ns) (lit ''MMAX'') = Some (PyInt 6000)
   \<and> map_of (example_of ns) (lit ''CACH'') = Some (PyInt 256)
   \<and> map_of (example_of ns) (lit ''CHMIN'') = Some (PyInt 16)
   \<and> map_of (example_of ns) (lit ''CHMAX'') = Some (PyInt 128)
   \<and> distinct (map fst (example_of ns))"
proof (intro conjI allI impI)
  fix k v
  assume "map_of (example_of ns) k = Some v \<and> startswith k (lit ''vendor'')"
  then show "v = (if k = lit ''vendor:ibm'' then PyInt 1 else PyInt 0)"
    using example_of_vendor by blast
next
  fix k k'
  assume a: "startswith k (lit ''vendor'') \<and> startswith k' (lit ''vendor'')
         \<and> map_of (example_of ns) k = Some (PyInt 1) \<and> map_of (example_of ns) k' = Some (PyInt 1)"
  then have "PyInt 1 = (if k = lit ''vendor:ibm'' then PyInt 1 else PyInt 0)"
    and "PyInt 1 = (if k' = lit ''vendor:ibm'' then PyInt 1 else PyInt 0)"
    using example_of_vendor by blast+
  then show "k = k'" by (simp split: if_splits)
next
  show "map_of (example_of ns) (lit ''MYCT'') = Some (PyInt 125)"
    by (simp add: example_of_lookup example_literal_def startswith_def lit_def)
  show "map_of (example_of ns) (lit ''MMIN'') = Some (PyInt 256)"
    by (simp add: example_of_lookup example_literal_def startswith_def lit_def)
  show "map_of (example_of ns) (lit ''MMAX'') = Some (PyInt 6000)"
    by (simp add: example_of_lookup example_literal_def startswith_def lit_def)
  show "map_of (example_of ns) (lit ''CACH'') = Some (PyInt 256)"
    by (simp add: example_of_lookup example_literal_def startswith_def lit_def)
  show "map_of (example_of ns) (lit ''CHMIN'') = Some (PyInt 16)"
    by (simp add: example_of_lookup example_literal_def startswith_def lit_def)
  show "map_of (example_of ns) (lit ''CHMAX'') = Some (PyInt 128)"
    by (simp add: example_of_lookup example_literal_def startswith_def lit_def)
  show "distinct (map fst (example_of ns))"
    by (simp add: example_of_def distinct_example_loop distinct_example_literal)
qed

lemma example_of_sample:
  "example_of [lit ''MYCT'', lit ''vendor:ibm'', lit ''vendor:hp'', lit ''vendor:ibm''] =
     [(lit ''MYCT'', PyInt 125), (lit ''MMIN'', PyInt 256), (lit ''MMAX'', PyInt 6000),
      (lit ''CACH'', PyInt 256), (lit ''CHMIN'', PyInt 16), (lit ''CHMAX'', PyInt 128),
      (lit ''vendor:ibm'', PyInt 1), (lit ''vendor:hp'', PyInt 0)]"
  by (simp add: example_of_def example_literal_def setitem_def startswith_def lit_def)

text \<open>
  The feature names \<open>MYCT, vendor:ibm, vendor:hp, vendor:ibm\<close>: \<open>vendor:hp\<close> holds 0
  and \<open>vendor:ibm\<close> holds 1.
\<close>

theorem example_one_hot_vendor_witness:
  "map_of (example_of [lit ''MYCT'', lit ''vendor:ibm'', lit ''vendor:hp'', lit ''vendor:ibm''])
       (lit ''vendor:hp'') = Some (PyInt 0)
   \<and> startswith (lit ''vendor:hp'') (lit ''vendor'')
   \<and> PyInt 0 = (if lit ''vendor:hp'' = lit ''vendor:ibm'' then PyInt 1 else PyInt 0)
   \<and> map_of (example_of [lit ''MYCT'', lit ''vendor:ibm'', lit ''vendor:hp'', lit ''vendor:ibm''])
       (lit ''vendor:ibm'') = Some (PyInt 1)"
proof -
  let ?ns = "[lit ''MYCT'', lit ''vendor:ibm'', lit ''vendor:hp'', lit ''vendor:ibm'']"
  have hp: "map_of (example_of ?ns) (lit ''vendor:hp'') = Some (PyInt 0)"
    and ibm: "map_of (example_of ?ns) (lit ''vendor:ibm'') = Some (PyInt 1)"
    by (simp_all add: example_of_sample) (simp_all add: lit_def)
  have pre: "startswith (lit ''vendor:hp'') (lit ''vendor'')"
    by (simp add: startswith_def lit_def)
  from example_one_hot_vendor[of ?ns] hp pre
  have "PyInt 0 = (if lit ''vendor:hp'' = lit ''vendor:ibm'' then PyInt 1 else PyInt 0)"
    by blast
  with hp ibm pre show ?thesis by blast
qed

text \<open>
  C10: the feature names are produced exactly when every line of the feature map has at
  least two whitespace-separated tokens; a blank or one-token line makes the extraction
  raise \<open>IndexError\<close>, and no other exception comes from it.
\<close>

theorem feature_names_partial:
  "((\<exists>names. feature_names_of text = Inr names) \<longleftrightarrow>
      (\<forall>line\<in>set (readlines text). 2 \<le> length (py_split line)))
   \<and> (\<forall>line\<in>set (readlines text). length (py_split line) < 2 \<longrightarrow>
         feature_names_of text = Inl IndexError)
   \<and> (\<forall>e. feature_names_of text = Inl e \<longrightarrow> e = IndexError)"
  by (auto simp: feature_names_of_eq)

lemma readlines_blank:
  "readlines (lit ''0 MYCT int'' @ [10, 10]) = [lit ''0 MYCT int'' @ [10], [10]]"
  by (simp add: readlines_def lit_def)

lemma py_split_blank: "py_split [10] = []"
  by (simp add: py_split_def isspace_def)

text \<open>A feature map whose second line is blank.\<close>

theorem feature_names_partial_witness:
  "[10] \<in> set (readlines (lit ''0 MYCT int'' @ [10, 10]))
   \<and> length (py_split [10]) < 2
   \<and> feature_names_of (lit ''0 MYCT int'' @ [10, 10]) = Inl IndexError"
proof -
  have a: "[10] \<in> set (readlines (lit ''0 MYCT int'' @ [10, 10]))"
    by (simp add: readlines_blank)
  have b: "length (py_split [10]) < 2"
    by (simp add: py_split_blank)
  from feature_names_partial[of "lit ''0 MYCT int'' @ [10, 10]"] a b
  have "feature_names_of (lit ''0 MYCT int'' @ [10, 10]) = Inl IndexError"
    by blast
  with a b show ?thesis by blast
qed

text \<open>
  C4: the assertion on the class labels succeeds exactly when the downloaded text splits
  into 1001 lines; then the labels are the lines without the first one, in order, and
  there are 1000 of them. The only exception of this step is the failed assertion.
\<close>

theorem class_labels_assertion:
  "((\<exists>labels. class_labels_of text = Inr labels) \<longleftrightarrow> length (splitlines text) = 1001)
   \<and> (\<forall>labels. class_labels_of text = Inr labels \<longrightarrow>
         splitlines text = hd (splitlines text) # labels \<and> length labels = 1000)
   \<and> (\<forall>e. class_labels_of text = Inl e \<longrightarrow> e = AssertionError)"
proof -
  have *: "length (drop 1 xs) = 1000 \<longleftrightarrow> length xs = 1001" for xs :: "pystr list"
    by auto
  have **: "length xs = 1001 \<Longrightarrow> xs = hd xs # drop 1 xs" for xs :: "pystr list"
    by (cases xs) auto
  show ?thesis
    unfolding class_labels_of_def slice_from_def Let_def
    using * ** by (auto split: if_splits)
qed

text \<open>A text of 1001 empty lines.\<close>

theorem class_labels_assertion_witness:
  "length (splitlines (replicate 1001 10)) = 1001
   \<and> class_labels_of (replicate 1001 10) = Inr (replicate 1000 [])"
proof -
  have s: "splitlines (replicate 1001 10) = replicate 1001 []"
    by (simp add: splitlines_def splitlines_replicate)
  then have len: "length (splitlines (replicate 1001 10)) = 1001" by simp
  with class_labels_assertion[of "replicate 1001 10"]
  obtain labels where l: "class_labels_of (replicate 1001 10) = Inr labels" by blast
  with class_labels_assertion[of "replicate 1001 10"]
  have "splitlines (replicate 1001 10) = hd (splitlines (replicate 1001 10)) # labels" by blast
  then have "tl (splitlines (replicate 1001 10)) = labels" by (metis list.sel(3))
  with s have "labels = replicate 1000 []" by simp
  with l len show ?thesis by simp
qed

section \<open>Rules for runs\<close>

lemma emits_pure: "R x \<Longrightarrow> emits Q (nb_pure x) R"
  by (simp add: emits_def nb_pure_def)

lemma emits_lift: "(\<And>x. r = Inr x \<Longrightarrow> R x) \<Longrightarrow> emits Q (nb_lift r) R"
  by (simp add: emits_def nb_lift_def)

lemma emits_ext: "Q (f, args, kwargs) \<Longrightarrow> R (PyObj f args kwargs) \<Longrightarrow> emits Q (ext_call w f args kwargs) R"
  by (simp add: emits_def ext_call_def split: option.splits)

lemma nb_seq_cases:
  obtains (raised) h' e where "m h = (h', Inl e)" "nb_seq m k h = (h', Inl e)"
  | (returned) h' x where "m h = (h', Inr x)" "nb_seq m k h = k x h'"
proof (cases "m h")
  case (Pair h' r)
  then show ?thesis
    by (cases r) (auto intro: raised returned simp: nb_seq_def)
qed

lemma emits_seq:
  assumes m: "emits Q m R" and k: "\<And>x. R x \<Longrightarrow> emits Q (k x) R'"
  shows "emits Q (nb_seq m k) R'"
  unfolding emits_def
proof
  fix h
  from m obtain n1 where n1: "fst (m h) = h @ n1" "list_all Q n1" "\<forall>x. snd (m h) = Inr x \<longrightarrow> R x"
    unfolding emits_def by blast
  show "\<exists>new. fst (nb_seq m k h) = h @ new \<and> list_all Q new \<and> (\<forall>x. snd (nb_seq m k h) = Inr x \<longrightarrow> R' x)"
  proof (cases rule: nb_seq_cases[of m h k])
    case (raised h' e)
    with n1 show ?thesis by simp
  next
    case (returned h' x)
    with n1 have Rx: "R x" and h': "h' = h @ n1" by simp_all
    from k[OF Rx] obtain n2 where n2: "fst (k x h') = h' @ n2" "list_all Q n2"
        "\<forall>y. snd (k x h') = Inr y \<longrightarrow> R' y"
      unfolding emits_def by blast
    with returned n1 h' have "fst (nb_seq m k h) = h @ (n1 @ n2) \<and> list_all Q (n1 @ n2) \<and> (\<forall>y. snd (nb_seq m k h) = Inr y \<longrightarrow> R' y)"
      by simp
    then show ?thesis by blast
  qed
qed

lemma emits_seqT: "emits Q m (\<lambda>x. True) \<Longrightarrow> (\<And>x. emits Q (k x) R') \<Longrightarrow> emits Q (nb_seq m k) R'"
  by (rule emits_seq)

lemma emits_if: "(b \<Longrightarrow> emits Q m R) \<Longrightarrow> (\<not> b \<Longrightarrow> emits Q m' R) \<Longrightarrow> emits Q (if b then m else m') R"
  by simp

lemma emits_prod: "(\<And>a b. emits Q (f a b) R) \<Longrightarrow> emits Q (case p of (a, b) \<Rightarrow> f a b) R"
  by (cases p) simp

lemma emits_print_loop:
  "(\<And>i. Q (''.__getitem__'', [out, PyInt i], [])) \<Longrightarrow> (\<And>l s. Q (''print'', [PyStr l, s], []))
   \<Longrightarrow> emits Q (pt_print_loop w labels out is) (\<lambda>u. True)"
proof (induction "is")
  case Nil
  show ?case by (simp add: emits_pure)
next
  case (Cons i rest)
  show ?case
    unfolding pt_print_loop.simps
    by (intro emits_seqT emits_lift emits_ext Cons TrueI)
qed

lemmas emits_intros = emits_seqT emits_ext emits_pure emits_lift emits_if emits_prod emits_print_loop

lemma emits_trace: "emits Q m R \<Longrightarrow> list_all Q (trace_of m)"
  unfolding emits_def trace_of_def by (metis append_Nil)

lemma appends_trace: "appends P m \<Longrightarrow> P (trace_of m)"
  unfolding appends_def trace_of_def by (metis append_Nil)


lemma propagates_pure: "propagates w (nb_pure x)"
  by (simp add: propagates_def nb_pure_def)

lemma propagates_lift: "propagates w (nb_lift r)"
  by (simp add: propagates_def nb_lift_def)

lemma propagates_ext: "propagates w (ext_call w f args kwargs)"
  by (simp add: propagates_def ext_call_def split: option.splits)

lemma propagates_seq:
  assumes m: "propagates w m" and k: "\<And>x. propagates w (k x)"
  shows "propagates w (nb_seq m k)"
  unfolding propagates_def
proof
  fix h
  from m obtain n1 where n1: "fst (m h) = h @ n1"
    "\<forall>i<length n1. \<forall>e. raises w (h @ take i n1) (n1 ! i) = Some e \<longrightarrow> snd (m h) = Inl e \<and> Suc i = length n1"
    unfolding propagates_def by blast
  show "\<exists>new. fst (nb_seq m k h) = h @ new \<and>
     (\<forall>i<length new. \<forall>e. raises w (h @ take i new) (new ! i) = Some e \<longrightarrow>
        snd (nb_seq m k h) = Inl e \<and> Suc i = length new)"
  proof (cases rule: nb_seq_cases[of m h k])
    case (raised h' e)
    with n1 show ?thesis by auto
  next
    case (returned h' x)
    with n1 have h': "h' = h @ n1" by simp
    from returned n1(2) have clean: "\<forall>i<length n1. raises w (h @ take i n1) (n1 ! i) = None"
      by (metis not_Some_eq snd_conv sum.distinct(1))
    from k[of x] obtain n2 where n2: "fst (k x h') = h' @ n2"
      "\<forall>i<length n2. \<forall>e. raises w (h' @ take i n2) (n2 ! i) = Some e \<longrightarrow> snd (k x h') = Inl e \<and> Suc i = length n2"
      unfolding propagates_def by blast
    have "\<forall>i<length (n1 @ n2). \<forall>e. raises w (h @ take i (n1 @ n2)) ((n1 @ n2) ! i) = Some e \<longrightarrow>
        snd (k x h') = Inl e \<and> Suc i = length (n1 @ n2)"
    proof (intro allI impI)
      fix i e
      assume i: "i < length (n1 @ n2)" and r: "raises w (h @ take i (n1 @ n2)) ((n1 @ n2) ! i) = Some e"
      show "snd (k x h') = Inl e \<and> Suc i = length (n1 @ n2)"
      proof (cases "i < length n1")
        case True
        with clean r show ?thesis by (simp add: nth_append)
      next
        case False
        then have j: "i - length n1 < length n2" using i by simp
        from False r have "raises w (h' @ take (i - length n1) n2) (n2 ! (i - length n1)) = Some e"
          by (simp add: nth_append h')
        with n2(2) j have "snd (k x h') = Inl e \<and> Suc (i - length n1) = length n2" by blast
        with False show ?thesis by auto
      qed
    qed
    moreover from returned n2 h' have "fst (nb_seq m k h) = h @ (n1 @ n2)" by simp
    ultimately show ?thesis using returned by metis
  qed
qed

lemma propagates_if: "propagates w m \<Longrightarrow> propagates w m' \<Longrightarrow> propagates w (if b then m else m')"
  by simp

lemma propagates_prod: "(\<And>a b. propagates w (f a b)) \<Longrightarrow> propagates w (case p of (a, b) \<Rightarrow> f a b)"
  by (cases p) simp

lemma propagates_print_loop: "propagates w (pt_print_loop w labels out is)"
  by (induction "is") (auto intro!: propagates_seq propagates_pure propagates_lift propagates_ext)

lemmas propagates_intros = propagates_seq propagates_ext propagates_pure propagates_lift
  propagates_if propagates_prod propagates_print_loop


lemmas xgb_cells = xgb_cell_imports_def xgb_cell_load_def xgb_cell_train_def xgb_cell_plot_def
  xgb_cell_accuracy_def xgb_cell_feature_names_def xgb_cell_convert_def xgb_cell_show_def
  xgb_cell_save_def xgb_cell_example_def xgb_cell_predict_def import_module_def display_def

lemmas pt_cells = pt_cell_model_def pt_cell_labels_def pt_cell_image_def pt_cell_test_def
  pt_cell_convert_def pt_cell_show_def pt_cell_save_def pt_cell_predict_def import_module_def
  display_def

lemma yields_pure: "yields (nb_pure x) (\<lambda>n y. n = [] \<and> y = x)"
  by (auto simp: yields_def nb_pure_def)

lemma yields_lift: "yields (nb_lift r) (\<lambda>n y. n = [] \<and> r = Inr y)"
  by (auto simp: yields_def nb_lift_def)

lemma yields_ext: "yields (ext_call w f a k) (\<lambda>n y. n = [(f, a, k)] \<and> y = PyObj f a k)"
  by (auto simp: yields_def ext_call_def split: option.splits)

lemma yields_seq:
  assumes "yields m S1" and "\<And>x. yields (k x) (S2 x)"
  shows "yields (nb_seq m k) (\<lambda>n y. \<exists>n1 x n2. n = n1 @ n2 \<and> S1 n1 x \<and> S2 x n2 y)"
  unfolding yields_def
proof (intro allI impI)
  fix h h'' y
  assume run: "nb_seq m k h = (h'', Inr y)"
  show "\<exists>new. h'' = h @ new \<and> (\<exists>n1 x n2. new = n1 @ n2 \<and> S1 n1 x \<and> S2 x n2 y)"
  proof (cases rule: nb_seq_cases[of m h k])
    case (raised h' e)
    with run show ?thesis by simp
  next
    case (returned h' x)
    with assms(1) obtain n1 where n1: "h' = h @ n1" "S1 n1 x"
      unfolding yields_def by blast
    from returned run have "k x h' = (h'', Inr y)" by simp
    with assms(2) obtain n2 where n2: "h'' = h' @ n2" "S2 x n2 y"
      unfolding yields_def by blast
    from n1 n2 have "h'' = h @ (n1 @ n2)" by simp
    with n1 n2 show ?thesis by blast
  qed
qed

lemma yields_if:
  "yields m S1 \<Longrightarrow> yields m' S2 \<Longrightarrow> yields (if b then m else m') (\<lambda>n y. if b then S1 n y else S2 n y)"
  by simp

lemma yields_prod:
  "(\<And>a b. yields (f a b) (S a b)) \<Longrightarrow>
   yields (case p of (a, b) \<Rightarrow> f a b) (\<lambda>n y. case p of (a, b) \<Rightarrow> S a b n y)"
  by (cases p) simp

lemma yields_print_loop:
  "yields (pt_print_loop w labels out is) (\<lambda>n y. list_all (\<lambda>c. fst c = ''.__getitem__'' \<or> fst c = ''print'') n)"
proof -
  have e: "emits (\<lambda>c. fst c = ''.__getitem__'' \<or> fst c = ''print'') (pt_print_loop w labels out is) (\<lambda>u. True)"
    by (rule emits_print_loop) simp_all
  show ?thesis
    unfolding yields_def
  proof (intro allI impI)
    fix h h' x
    assume r: "pt_print_loop w labels out is h = (h', Inr x)"
    from e obtain new where "fst (pt_print_loop w labels out is h) = h @ new"
      "list_all (\<lambda>c. fst c = ''.__getitem__'' \<or> fst c = ''print'') new"
      unfolding emits_def by blast
    with r show "\<exists>new. h' = h @ new \<and> list_all (\<lambda>c. fst c = ''.__getitem__'' \<or> fst c = ''print'') new"
      by auto
  qed
qed

lemma yields_run:
  assumes "yields m S" and "\<And>n x. S n x \<Longrightarrow> P n x" and "result_of m = Inr g"
  shows "P (trace_of m) g"
proof -
  from assms(3) have "m [] = (trace_of m, Inr g)"
    by (simp add: result_of_def trace_of_def prod_eq_iff)
  with assms(1) obtain new where "trace_of m = [] @ new" "S new g"
    unfolding yields_def by blast
  with assms(2) show ?thesis by simp
qed

lemmas yields_intros = yields_seq yields_ext yields_pure yields_lift yields_if yields_prod yields_print_loop

lemma fields_nonempty: "fields s \<noteq> []"
  by (induction s) (auto split: list.splits)

lemma split_ws_fields:
  "split_ws cur s = filter (\<lambda>f. f \<noteq> []) ((cur @ hd (fields s)) # tl (fields s))"
proof (induction s arbitrary: cur)
  case Nil
  show ?case by simp
next
  case (Cons c cs)
  obtain f fs where f: "fields cs = f # fs"
    using fields_nonempty[of cs] by (cases "fields cs") auto
  show ?case
  proof (cases "isspace c")
    case True
    with f show ?thesis by (simp add: Cons.IH[of "[]"])
  next
    case False
    with f show ?thesis by (simp add: Cons.IH[of "cur @ [c]"])
  qed
qed

lemma py_split_spec_tokens: "py_split line = spec_tokens line"
proof -
  obtain f fs where "fields line = f # fs"
    using fields_nonempty[of line] by (cases "fields line") auto
  then show ?thesis
    by (simp add: py_split_def spec_tokens_def split_ws_fields)
qed

lemma feature_names_of_spec:
  "\<forall>line\<in>set (readlines text). 2 \<le> length (spec_tokens line) \<Longrightarrow>
   feature_names_of text = Inr (spec_second_tokens text)"
  by (simp add: feature_names_of_eq spec_second_tokens_def py_split_spec_tokens)

lemma feature_names_of_Inr:
  "feature_names_of text = Inr names \<Longrightarrow> names = spec_second_tokens text"
  by (simp add: feature_names_of_eq spec_second_tokens_def py_split_spec_tokens split: if_splits)

section \<open>Both notebooks in any world\<close>

lemma xgb_propagates: "propagates w (xgboost_notebook w)"
  unfolding xgboost_notebook_def xgb_cells by (intro propagates_intros)

lemma pt_propagates: "propagates w (pytorch_notebook w)"
  unfolding pytorch_notebook_def pt_cells by (intro propagates_intros)

lemma propagates_trace:
  assumes "propagates w m" "i < length (trace_of m)"
    "raises w (take i (trace_of m)) (trace_of m ! i) = Some e"
  shows "result_of m = Inl e \<and> Suc i = length (trace_of m)"
proof -
  from assms(1) obtain new where new: "fst (m []) = [] @ new"
    "\<forall>i<length new. \<forall>e. raises w ([] @ take i new) (new ! i) = Some e \<longrightarrow>
        snd (m []) = Inl e \<and> Suc i = length new"
    unfolding propagates_def by blast
  then have "trace_of m = new" by (simp add: trace_of_def)
  with new(2) assms(2,3) show ?thesis by (simp add: result_of_def)
qed

lemma xgb_no_network: "emits (\<lambda>c. \<not> is_network c) (xgboost_notebook w) (\<lambda>g. True)"
  unfolding xgboost_notebook_def xgb_cells
  by (intro emits_intros) (simp_all add: is_network_def)

lemma pt_network:
  "emits (\<lambda>c. is_network c \<longrightarrow> c = hub_load_call \<or> c = urlopen_call)
     (pytorch_notebook w) (\<lambda>g. True)"
  unfolding pytorch_notebook_def pt_cells
  by (intro emits_intros) (simp_all add: is_network_def hub_load_call_def urlopen_call_def)

lemma files_read_subset:
  "list_all (\<lambda>c. \<forall>n. file_read c = Some n \<longrightarrow> n \<in> S) t \<Longrightarrow> files_read t \<subseteq> S"
  by (induction t) (auto simp: files_read_def map_filter_simps split: option.splits)

lemma files_written_subset:
  "list_all (\<lambda>c. \<forall>n. file_written c = Some n \<longrightarrow> n \<in> S) t \<Longrightarrow> files_written t \<subseteq> S"
  by (induction t) (auto simp: files_written_def map_filter_simps split: option.splits)

lemma xgb_reads:
  "emits (\<lambda>c. \<forall>n. file_read c = Some n \<longrightarrow>
             n \<in> {lit ''machine.txt.train'', lit ''machine.txt.test'', lit ''machine.featmap.txt''}
                 \<union> (if IS_MACOS w then {lit ''machine.mlmodel''} else {}))
     (xgboost_notebook w) (\<lambda>g. True)"
  unfolding xgboost_notebook_def xgb_cells
  by (intro emits_intros) (simp_all add: file_read_def)

lemma xgb_writes:
  "emits (\<lambda>c. \<forall>n. file_written c = Some n \<longrightarrow> n \<in> {lit ''machine.mlmodel''})
     (xgboost_notebook w) (\<lambda>g. True)"
  unfolding xgboost_notebook_def xgb_cells
  by (intro emits_intros) (simp_all add: file_written_def)

lemma pt_reads:
  "emits (\<lambda>c. \<forall>n. file_read c = Some n \<longrightarrow>
             n \<in> {lit ''Dog.jpg''} \<union> (if IS_MACOS w then {lit ''MobileNet_v2_torch.mlmodel''} else {}))
     (pytorch_notebook w) (\<lambda>g. True)"
  unfolding pytorch_notebook_def pt_cells
  by (intro emits_intros) (simp_all add: file_read_def)

lemma pt_writes:
  "emits (\<lambda>c. \<forall>n. file_written c = Some n \<longrightarrow> n \<in> {lit ''MobileNet_v2_torch.mlmodel''})
     (pytorch_notebook w) (\<lambda>g. True)"
  unfolding pytorch_notebook_def pt_cells
  by (intro emits_intros) (simp_all add: file_written_def)

lemma xgb_train_args:
  "emits (\<lambda>c. fst c = ''xgb.train'' \<longrightarrow>
             (\<exists>dtrain. c = (''xgb.train'', [PyDict param, dtrain], [(''num_boost_round'', PyInt 2)])))
     (xgboost_notebook w) (\<lambda>g. True)"
  unfolding xgboost_notebook_def xgb_cells
  by (intro emits_intros) simp_all

lemma xgb_no_reload:
  "\<not> IS_MACOS w \<Longrightarrow> emits (\<lambda>c. \<not> is_reload c) (xgboost_notebook w) (\<lambda>g. True)"
  unfolding xgboost_notebook_def xgb_cells
  by (intro emits_intros) (simp_all add: is_reload_def)

lemma pt_no_reload:
  "\<not> IS_MACOS w \<Longrightarrow> emits (\<lambda>c. \<not> is_reload c) (pytorch_notebook w) (\<lambda>g. True)"
  unfolding pytorch_notebook_def pt_cells
  by (intro emits_intros) (simp_all add: is_reload_def)

lemma xgb_convert_args:
  "emits (\<lambda>c. fst c = ''ct.converters.xgboost.convert'' \<longrightarrow>
             snd (snd c) = convert_kwargs (spec_second_tokens (file_text w (lit ''machine.featmap.txt''))))
     (xgboost_notebook w) (\<lambda>g. True)"
  unfolding xgboost_notebook_def
  apply (rule emits_seqT)
  subgoal unfolding xgb_cells by (intro emits_intros; simp)
  apply (rule emits_seqT)
  subgoal unfolding xgb_cells by (intro emits_intros; simp)
  apply (rule emits_prod)
  apply (rule emits_seqT)
  subgoal unfolding xgb_cells by (intro emits_intros; simp)
  apply (rule emits_seqT)
  subgoal unfolding xgb_cells by (intro emits_intros; simp)
  apply (rule emits_seqT)
  subgoal unfolding xgb_cells by (intro emits_intros; simp)
  apply (rule emits_seq[where R="\<lambda>names. names = spec_second_tokens (file_text w (lit ''machine.featmap.txt''))"])
  subgoal
    unfolding xgb_cell_feature_names_def display_def
    apply (rule emits_seqT, (rule emits_ext; simp))
    apply (rule emits_seqT, (rule emits_ext; simp))
    apply (rule emits_seq[where R="\<lambda>names. names = spec_second_tokens (file_text w (lit ''machine.featmap.txt''))"])
     apply (rule emits_lift, simp add: feature_names_of_Inr)
    apply (rule emits_seqT, (rule emits_ext; simp))
    apply (rule emits_pure, simp)
    done
  unfolding xgb_cells
  by (intro emits_intros; simp add: convert_kwargs_def)

subsection \<open>The order of the steps\<close>

lemma stages_append: "stages st (a @ b) = stages st a @ stages st b"
  by (induction a) (auto simp: stages_def map_filter_simps split: option.splits)

lemma stages_in_stage: "list_all (in_stage st a) t \<Longrightarrow> set (stages st t) \<subseteq> {a}"
  by (induction t) (auto simp: stages_def map_filter_simps in_stage_def split: option.splits)

lemma sorted_const: "set xs \<subseteq> {a} \<Longrightarrow> sorted (xs::nat list)"
  by (induction xs) auto

lemma ordered_from_in_stage: "list_all (in_stage st a) t \<Longrightarrow> ordered_from st a t"
  using stages_in_stage[of st a t] sorted_const[of "stages st t" a]
  by (auto simp: ordered_from_def list_all_iff)

lemma ordered_from_append:
  assumes "list_all (in_stage st a) t1" "ordered_from st b t2" "a \<le> b"
  shows "ordered_from st a (t1 @ t2)"
proof -
  from assms(1) have s1: "set (stages st t1) \<subseteq> {a}" by (rule stages_in_stage)
  then have "sorted (stages st t1)" by (rule sorted_const)
  moreover from assms(2) have "sorted (stages st t2)" "\<forall>s\<in>set (stages st t2). b \<le> s"
    by (simp_all add: ordered_from_def list_all_iff)
  ultimately show ?thesis
    using s1 assms(3) by (fastforce simp: ordered_from_def stages_append sorted_append list_all_iff)
qed

lemma ordered_seq:
  assumes m: "emits (in_stage st a) m R" and k: "\<And>x. appends (ordered_from st b) (k x)" and ab: "a \<le> b"
  shows "appends (ordered_from st a) (nb_seq m k)"
  unfolding appends_def
proof
  fix h
  from m obtain n1 where n1: "fst (m h) = h @ n1" "list_all (in_stage st a) n1"
    unfolding emits_def by blast
  show "\<exists>new. fst (nb_seq m k h) = h @ new \<and> ordered_from st a new"
  proof (cases rule: nb_seq_cases[of m h k])
    case (raised h' e)
    with n1 show ?thesis by (auto intro: ordered_from_in_stage)
  next
    case (returned h' x)
    with n1 have h': "h' = h @ n1" by simp
    from k[of x] obtain n2 where n2: "fst (k x h') = h' @ n2" "ordered_from st b n2"
      unfolding appends_def by blast
    from n1(2) n2(2) ab have "ordered_from st a (n1 @ n2)" by (rule ordered_from_append)
    moreover from returned n2 h' have "fst (nb_seq m k h) = h @ (n1 @ n2)" by simp
    ultimately show ?thesis by blast
  qed
qed

lemma ordered_pure: "appends (ordered_from st a) (nb_pure x)"
  by (simp add: appends_def nb_pure_def ordered_from_def stages_def map_filter_simps)

lemma appends_prod: "(\<And>a b. appends P (f a b)) \<Longrightarrow> appends P (case p of (a, b) \<Rightarrow> f a b)"
  by (cases p) simp

lemmas stage_simps = in_stage_def spec_stage_def pt_stage_def

lemma xgb_ordered: "appends (ordered_from spec_stage 0) (xgboost_notebook w)"
  unfolding xgboost_notebook_def
  apply (rule ordered_seq[where a=0 and b=1 and R="\<lambda>x. True"])
  subgoal unfolding xgb_cells by (intro emits_intros; simp add: stage_simps)
   apply (rule ordered_seq[where a=1 and b=2 and R="\<lambda>x. True"])
  subgoal unfolding xgb_cells by (intro emits_intros; simp add: stage_simps)
    apply (rule appends_prod)
    apply (rule ordered_seq[where a=2 and b=2 and R="\<lambda>x. True"])
  subgoal unfolding xgb_cells by (intro emits_intros; simp add: stage_simps)
     apply (rule ordered_seq[where a=2 and b=2 and R="\<lambda>x. True"])
  subgoal unfolding xgb_cells by (intro emits_intros; simp add: stage_simps)
      apply (rule ordered_seq[where a=2 and b=2 and R="\<lambda>x. True"])
  subgoal unfolding xgb_cells by (intro emits_intros; simp add: stage_simps)
       apply (rule ordered_seq[where a=2 and b=3 and R="\<lambda>x. True"])
  subgoal unfolding xgb_cells by (intro emits_intros; simp add: stage_simps)
        apply (rule ordered_seq[where a=3 and b=3 and R="\<lambda>x. True"])
  subgoal unfolding xgb_cells by (intro emits_intros; simp add: stage_simps)
         apply (rule ordered_seq[where a=3 and b=4 and R="\<lambda>x. True"])
  subgoal unfolding xgb_cells by (intro emits_intros; simp add: stage_simps)
          apply (rule ordered_seq[where a=4 and b=4 and R="\<lambda>x. True"])
  subgoal unfolding xgb_cells by (intro emits_intros; simp add: stage_simps)
           apply (rule ordered_seq[where a=4 and b=5 and R="\<lambda>x. True"])
  subgoal unfolding xgb_cells by (intro emits_intros; simp add: stage_simps)
            apply (rule ordered_seq[where a=5 and b=5 and R="\<lambda>x. True"])
  subgoal unfolding xgb_cells by (intro emits_intros; simp add: stage_simps)
             apply (rule ordered_pure)
            apply simp_all
  done

lemma pt_ordered: "appends (ordered_from pt_stage 1) (pytorch_notebook w)"
  unfolding pytorch_notebook_def
  apply (rule ordered_seq[where a=1 and b=1 and R="\<lambda>x. True"])
  subgoal unfolding pt_cells by (intro emits_intros; simp add: stage_simps)
   apply (rule ordered_seq[where a=1 and b=2 and R="\<lambda>x. True"])
  subgoal unfolding pt_cells by (intro emits_intros; simp add: stage_simps)
    apply (rule ordered_seq[where a=2 and b=2 and R="\<lambda>x. True"])
  subgoal unfolding pt_cells by (intro emits_intros; simp add: stage_simps)
     apply (rule ordered_seq[where a=2 and b=3 and R="\<lambda>x. True"])
  subgoal unfolding pt_cells by (intro emits_intros; simp add: stage_simps)
      apply (rule ordered_seq[where a=3 and b=3 and R="\<lambda>x. True"])
  subgoal unfolding pt_cells by (intro emits_intros; simp add: stage_simps)
       apply (rule ordered_seq[where a=3 and b=4 and R="\<lambda>x. True"])
  subgoal unfolding pt_cells by (intro emits_intros; simp add: stage_simps)
        apply (rule ordered_seq[where a=4 and b=5 and R="\<lambda>x. True"])
  subgoal unfolding pt_cells by (intro emits_intros; simp add: stage_simps)
         apply (rule ordered_seq[where a=5 and b=5 and R="\<lambda>x. True"])
  subgoal unfolding pt_cells by (intro emits_intros; simp add: stage_simps)
          apply (rule ordered_pure)
         apply simp_all
  done

subsection \<open>Saving before reloading\<close>

lemma sbu_no_reload: "list_all (\<lambda>c. \<not> is_reload c) t \<Longrightarrow> saved_before_use art t"
  by (auto simp: saved_before_use_def list_all_length)

lemma sbu_prepend:
  assumes "list_all (\<lambda>c. \<not> is_reload c) t1" "saved_before_use art t2"
  shows "saved_before_use art (t1 @ t2)"
  unfolding saved_before_use_def
proof (intro allI impI)
  fix i
  assume i: "i < length (t1 @ t2)" and r: "is_reload ((t1 @ t2) ! i)"
  from assms(1) r have ge: "\<not> i < length t1"
    by (auto simp: nth_append list_all_length)
  with i r have "i - length t1 < length t2" "is_reload (t2 ! (i - length t1))"
    by (simp_all add: nth_append)
  with assms(2) obtain j where j: "j < i - length t1" "file_written (t2 ! j) = Some art"
    unfolding saved_before_use_def by blast
  with ge have "length t1 + j < i" "file_written ((t1 @ t2) ! (length t1 + j)) = Some art"
    by (simp_all add: nth_append)
  then show "\<exists>j<i. file_written ((t1 @ t2) ! j) = Some art" by blast
qed

lemma sbu_after_save:
  assumes "file_written c = Some art" "\<not> is_reload c"
  shows "saved_before_use art (c # t)"
  unfolding saved_before_use_def
proof (intro allI impI)
  fix i
  assume "i < length (c # t)" "is_reload ((c # t) ! i)"
  with assms have "0 < i" "file_written ((c # t) ! 0) = Some art"
    by (cases i; simp)+
  then show "\<exists>j<i. file_written ((c # t) ! j) = Some art" by blast
qed

lemma sbu_seq:
  assumes m: "emits (\<lambda>c. \<not> is_reload c) m R" and k: "\<And>x. appends (saved_before_use art) (k x)"
  shows "appends (saved_before_use art) (nb_seq m k)"
  unfolding appends_def
proof
  fix h
  from m obtain n1 where n1: "fst (m h) = h @ n1" "list_all (\<lambda>c. \<not> is_reload c) n1"
    unfolding emits_def by blast
  show "\<exists>new. fst (nb_seq m k h) = h @ new \<and> saved_before_use art new"
  proof (cases rule: nb_seq_cases[of m h k])
    case (raised h' e)
    with n1 show ?thesis by (auto intro: sbu_no_reload)
  next
    case (returned h' x)
    with n1 have h': "h' = h @ n1" by simp
    from k[of x] obtain n2 where n2: "fst (k x h') = h' @ n2" "saved_before_use art n2"
      unfolding appends_def by blast
    from n1(2) n2(2) have "saved_before_use art (n1 @ n2)" by (rule sbu_prepend)
    moreover from returned n2 h' have "fst (nb_seq m k h) = h @ (n1 @ n2)" by simp
    ultimately show ?thesis by blast
  qed
qed

lemma sbu_save:
  assumes k: "\<And>x. emits (\<lambda>c. True) (k x) R"
  shows "appends (saved_before_use art) (nb_seq (ext_call w ''.save'' [model, PyStr art] []) k)"
  unfolding appends_def
proof
  fix h
  let ?c = "(''.save'', [model, PyStr art], [])"
  have c: "file_written ?c = Some art" "\<not> is_reload ?c"
    by (simp_all add: file_written_def is_reload_def)
  show "\<exists>new. fst (nb_seq (ext_call w ''.save'' [model, PyStr art] []) k h) = h @ new
          \<and> saved_before_use art new"
  proof (cases rule: nb_seq_cases[of "ext_call w ''.save'' [model, PyStr art] []" h k])
    case (raised h' e)
    then have "h' = h @ [?c]" by (auto simp: ext_call_def split: option.splits)
    with raised c show ?thesis by (auto intro: sbu_after_save)
  next
    case (returned h' x)
    then have h': "h' = h @ [?c]" by (auto simp: ext_call_def split: option.splits)
    from k[of x] obtain n2 where n2: "fst (k x h') = h' @ n2"
      unfolding emits_def by blast
    from c have "saved_before_use art (?c # n2)" by (rule sbu_after_save)
    moreover from returned n2 h' have "fst (nb_seq (ext_call w ''.save'' [model, PyStr art] []) k h) = h @ (?c # n2)"
      by simp
    ultimately show ?thesis by blast
  qed
qed

lemma xgb_saved_first: "appends (saved_before_use (lit ''machine.mlmodel'')) (xgboost_notebook w)"
  unfolding xgboost_notebook_def xgb_cell_save_def
  apply (rule sbu_seq[where R="\<lambda>x. True"])
  subgoal unfolding xgb_cells by (intro emits_intros; simp add: is_reload_def)
  apply (rule sbu_seq[where R="\<lambda>x. True"])
  subgoal unfolding xgb_cells by (intro emits_intros; simp add: is_reload_def)
  apply (rule appends_prod)
  apply (rule sbu_seq[where R="\<lambda>x. True"])
  subgoal unfolding xgb_cells by (intro emits_intros; simp add: is_reload_def)
  apply (rule sbu_seq[where R="\<lambda>x. True"])
  subgoal unfolding xgb_cells by (intro emits_intros; simp add: is_reload_def)
  apply (rule sbu_seq[where R="\<lambda>x. True"])
  subgoal unfolding xgb_cells by (intro emits_intros; simp add: is_reload_def)
  apply (rule sbu_seq[where R="\<lambda>x. True"])
  subgoal unfolding xgb_cells by (intro emits_intros; simp add: is_reload_def)
  apply (rule sbu_seq[where R="\<lambda>x. True"])
  subgoal unfolding xgb_cells by (intro emits_intros; simp add: is_reload_def)
  apply (rule sbu_seq[where R="\<lambda>x. True"])
  subgoal unfolding xgb_cells by (intro emits_intros; simp add: is_reload_def)
  apply (rule sbu_save[where R="\<lambda>x. True"])
  unfolding xgb_cells
  by (intro emits_intros; simp)

lemma pt_saved_first: "appends (saved_before_use (lit ''MobileNet_v2_torch.mlmodel'')) (pytorch_notebook w)"
  unfolding pytorch_notebook_def pt_cell_save_def
  apply (rule sbu_seq[where R="\<lambda>x. True"])
  subgoal unfolding pt_cells by (intro emits_intros; simp add: is_reload_def)
  apply (rule sbu_seq[where R="\<lambda>x. True"])
  subgoal unfolding pt_cells by (intro emits_intros; simp add: is_reload_def)
  apply (rule sbu_seq[where R="\<lambda>x. True"])
  subgoal unfolding pt_cells by (intro emits_intros; simp add: is_reload_def)
  apply (rule sbu_seq[where R="\<lambda>x. True"])
  subgoal unfolding pt_cells by (intro emits_intros; simp add: is_reload_def)
  apply (rule sbu_seq[where R="\<lambda>x. True"])
  subgoal unfolding pt_cells by (intro emits_intros; simp add: is_reload_def)
  apply (rule sbu_seq[where R="\<lambda>x. True"])
  subgoal unfolding pt_cells by (intro emits_intros; simp add: is_reload_def)
  apply (rule sbu_save[where R="\<lambda>x. True"])
  unfolding pt_cells
  by (intro emits_intros; simp)

subsection \<open>Runs that complete\<close>

lemma map_filter_append: "List.map_filter f (a @ b) = List.map_filter f a @ List.map_filter f b"
  by (simp add: map_filter_def)

lemma loop_calls_no_files:
  "list_all (\<lambda>c. fst c = ''.__getitem__'' \<or> fst c = ''print'') n \<Longrightarrow>
   List.map_filter file_read n = [] \<and> List.map_filter file_written n = []"
  by (induction n) (auto simp: map_filter_simps file_read_def file_written_def)

lemmas file_simps = files_read_def file_read_def files_written_def file_written_def
  map_filter_simps map_filter_append loop_calls_no_files

lemma xgb_success_all:
  assumes "result_of (xgboost_notebook w) = Inr g"
  shows "files_read (trace_of (xgboost_notebook w)) =
           {lit ''machine.txt.train'', lit ''machine.txt.test'', lit ''machine.featmap.txt''}
           \<union> (if IS_MACOS w then {lit ''machine.mlmodel''} else {})
         \<and> files_written (trace_of (xgboost_notebook w)) = {lit ''machine.mlmodel''}
         \<and> train_call \<in> set (trace_of (xgboost_notebook w))
         \<and> (''ct.converters.xgboost.convert'', [g_bst_model g], convert_kwargs (g_feature_names g))
              \<in> set (trace_of (xgboost_notebook w))
         \<and> feature_names_of (file_text w (lit ''machine.featmap.txt'')) = Inr (g_feature_names g)
         \<and> g_example g = example_of (g_feature_names g)
         \<and> (\<not> IS_MACOS w \<longrightarrow> g_prediction g = placeholder)
         \<and> (IS_MACOS w \<longrightarrow> xgb_predict_call (g_example g) \<in> set (trace_of (xgboost_notebook w)))
         \<and> (IS_MACOS w \<longrightarrow> g_prediction g = returned (xgb_predict_call (g_example g)))"
  apply (rule yields_run[OF _ _ assms, where P="\<lambda>t g. files_read t = _ \<and> _ t g"])
   apply (unfold xgboost_notebook_def xgb_cells)
   apply (rule yields_intros)+
  apply (cases "IS_MACOS w"; clarsimp simp: file_simps train_call_def convert_kwargs_def
      xgb_predict_call_def returned_def; blast)
  done

lemma xgb_success:
  assumes r: "result_of (xgboost_notebook w) = Inr g"
  shows "files_read (trace_of (xgboost_notebook w)) =
           {lit ''machine.txt.train'', lit ''machine.txt.test'', lit ''machine.featmap.txt''}
           \<union> (if IS_MACOS w then {lit ''machine.mlmodel''} else {})" (is ?A)
    and "files_written (trace_of (xgboost_notebook w)) = {lit ''machine.mlmodel''}" (is ?B)
    and "train_call \<in> set (trace_of (xgboost_notebook w))" (is ?C)
    and "(''ct.converters.xgboost.convert'', [g_bst_model g], convert_kwargs (g_feature_names g))
              \<in> set (trace_of (xgboost_notebook w))" (is ?D)
    and "feature_names_of (file_text w (lit ''machine.featmap.txt'')) = Inr (g_feature_names g)" (is ?E)
    and "g_example g = example_of (g_feature_names g)" (is ?F)
    and "\<not> IS_MACOS w \<longrightarrow> g_prediction g = placeholder" (is ?G)
    and "IS_MACOS w \<longrightarrow> xgb_predict_call (g_example g) \<in> set (trace_of (xgboost_notebook w))" (is ?H)
    and "IS_MACOS w \<longrightarrow> g_prediction g = returned (xgb_predict_call (g_example g))" (is ?I)
proof -
  note a = xgb_success_all[OF r]
  from a show ?A by (rule conjunct1)
  note a = a[THEN conjunct2]
  from a show ?B by (rule conjunct1)
  note a = a[THEN conjunct2]
  from a show ?C by (rule conjunct1)
  note a = a[THEN conjunct2]
  from a show ?D by (rule conjunct1)
  note a = a[THEN conjunct2]
  from a show ?E by (rule conjunct1)
  note a = a[THEN conjunct2]
  from a show ?F by (rule conjunct1)
  note a = a[THEN conjunct2]
  from a show ?G by (rule conjunct1)
  note a = a[THEN conjunct2]
  from a show ?H by (rule conjunct1)
  from a show ?I by (rule conjunct2)
qed

lemma pt_success_all:
  assumes "result_of (pytorch_notebook w) = Inr g"
  shows "files_read (trace_of (pytorch_notebook w)) =
           {lit ''Dog.jpg''} \<union> (if IS_MACOS w then {lit ''MobileNet_v2_torch.mlmodel''} else {})
         \<and> files_written (trace_of (pytorch_notebook w)) = {lit ''MobileNet_v2_torch.mlmodel''}
         \<and> (\<not> IS_MACOS w \<longrightarrow> g_pt_prediction g = placeholder)
         \<and> (IS_MACOS w \<longrightarrow> pt_predict_call (g_img g) \<in> set (trace_of (pytorch_notebook w)))
         \<and> (IS_MACOS w \<longrightarrow> g_pt_prediction g = returned (pt_predict_call (g_img g)))"
  apply (rule yields_run[OF _ _ assms, where P="\<lambda>t g. files_read t = _ \<and> _ t g"])
   apply (unfold pytorch_notebook_def pt_cells)
   apply (rule yields_intros)+
  apply (cases "IS_MACOS w"; clarsimp simp: file_simps pt_predict_call_def returned_def; blast)
  done

lemma pt_success:
  assumes r: "result_of (pytorch_notebook w) = Inr g"
  shows "files_read (trace_of (pytorch_notebook w)) =
           {lit ''Dog.jpg''} \<union> (if IS_MACOS w then {lit ''MobileNet_v2_torch.mlmodel''} else {})" (is ?A)
    and "files_written (trace_of (pytorch_notebook w)) = {lit ''MobileNet_v2_torch.mlmodel''}" (is ?B)
    and "\<not> IS_MACOS w \<longrightarrow> g_pt_prediction g = placeholder" (is ?C)
    and "IS_MACOS w \<longrightarrow> pt_predict_call (g_img g) \<in> set (trace_of (pytorch_notebook w))" (is ?D)
    and "IS_MACOS w \<longrightarrow> g_pt_prediction g = returned (pt_predict_call (g_img g))" (is ?E)
proof -
  note a = pt_success_all[OF r]
  from a show ?A by (rule conjunct1)
  note a = a[THEN conjunct2]
  from a show ?B by (rule conjunct1)
  note a = a[THEN conjunct2]
  from a show ?C by (rule conjunct1)
  note a = a[THEN conjunct2]
  from a show ?D by (rule conjunct1)
  from a show ?E by (rule conjunct2)
qed

section \<open>The example runs\<close>

lemma featmap_names:
  "feature_names_of featmap_text = Inr [lit ''MYCT'', lit ''vendor:ibm'', lit ''vendor:hp'']"
  by (simp add: feature_names_of_def featmap_text_def readlines_def py_split_def getitem_def
      isspace_def lit_def)

lemma labels_1001: "class_labels_of (replicate 1001 10) = Inr (replicate 1000 [])"
  by (simp add: class_labels_of_def splitlines_def splitlines_replicate slice_from_def)

lemma getitem_replicate: "0 \<le> i \<Longrightarrow> i < int n \<Longrightarrow> getitem (replicate n x) i = Inr x"
  by (simp add: getitem_def)

lemma linux_not_darwin: "lit ''linux'' \<noteq> lit ''darwin''"
  by (simp add: lit_def)

lemma linux_not_macos: "\<not> IS_MACOS linux_world"
  by (simp add: IS_MACOS_def linux_world_def linux_not_darwin)

lemma macos_is_macos: "IS_MACOS macos_world"
  by (simp add: IS_MACOS_def macos_world_def linux_world_def)

lemmas run_simps = trace_of_def result_of_def nb_seq_def nb_pure_def nb_lift_def ext_call_def
  IS_MACOS_def linux_not_darwin linux_world_def macos_world_def open_fails_world_def
  featmap_names labels_1001 getitem_replicate

lemmas stage_eval = stages_def map_filter_simps spec_stage_def

lemma xgb_linux_run:
  "length (trace_of (xgboost_notebook linux_world)) = 25
   \<and> trace_of (xgboost_notebook linux_world) ! 4 = train_call
   \<and> stages spec_stage (trace_of (xgboost_notebook linux_world)) = [1, 1, 2, 3, 4]
   \<and> (\<exists>g. result_of (xgboost_notebook linux_world) = Inr g)"
  by (simp add: xgboost_notebook_def xgb_cells run_simps stage_eval train_call_def)

lemma xgb_macos_run:
  "length (trace_of (xgboost_notebook macos_world)) = 28
   \<and> trace_of (xgboost_notebook macos_world) ! 24 = (''.save'',
        [PyObj ''ct.converters.xgboost.convert''
           [PyObj ''xgb.train'' [PyDict param, PyObj ''xgb.DMatrix'' [PyStr (lit ''machine.txt.train'')] []]
              [(''num_boost_round'', PyInt 2)]]
           (convert_kwargs [lit ''MYCT'', lit ''vendor:ibm'', lit ''vendor:hp'']),
         PyStr (lit ''machine.mlmodel'')], [])
   \<and> trace_of (xgboost_notebook macos_world) ! 25 = xgb_reload_call
   \<and> stages spec_stage (trace_of (xgboost_notebook macos_world)) = [1, 1, 2, 3, 4, 5]
   \<and> (\<exists>g. result_of (xgboost_notebook macos_world) = Inr g)"
  by (simp add: xgboost_notebook_def xgb_cells run_simps stage_eval xgb_reload_call_def
      convert_kwargs_def)

lemma xgb_open_fails_run:
  "length (trace_of (xgboost_notebook open_fails_world)) = 19
   \<and> trace_of (xgboost_notebook open_fails_world) ! 18 =
       (''open'', [PyStr (lit ''machine.featmap.txt'')], [])"
  by (simp add: xgboost_notebook_def xgb_cells run_simps)

lemma pt_linux_run:
  "length (trace_of (pytorch_notebook linux_world)) = 49
   \<and> trace_of (pytorch_notebook linux_world) ! 3 = hub_load_call
   \<and> trace_of (pytorch_notebook linux_world) ! 9 = urlopen_call
   \<and> stages spec_stage (trace_of (pytorch_notebook linux_world)) = [2, 2, 1, 3, 4]
   \<and> (\<exists>g. result_of (pytorch_notebook linux_world) = Inr g)"
  by (simp add: pytorch_notebook_def pt_cells run_simps stage_eval hub_load_call_def
      urlopen_call_def)

section \<open>The notebooks as a whole\<close>

lemma is_network_calls: "is_network hub_load_call" "is_network urlopen_call"
  by (simp_all add: is_network_def hub_load_call_def urlopen_call_def)

text \<open>
  C1 as stated fails: in the complete Linux run of the PyTorch notebook the tenth call is
  \<open>urllib.request.urlopen\<close> on the class-label URL.
\<close>

theorem pytorch_run_uses_network:
  "9 < length (trace_of (pytorch_notebook linux_world))
   \<and> trace_of (pytorch_notebook linux_world) ! 9 = urlopen_call
   \<and> is_network (trace_of (pytorch_notebook linux_world) ! 9)"
  using pt_linux_run is_network_calls by simp

text \<open>
  C1, amended: no run of the XGBoost notebook makes a network call; the files it reads are
  among the four literal names and the only file it writes is \<open>machine.mlmodel\<close>. The
  PyTorch notebook does use the network: the only network calls of a run are
  \<open>torch.hub.load\<close> of the literal repository and model and \<open>urlopen\<close> of the literal
  label URL; the files it reads are among \<open>Dog.jpg\<close> and its own output, and the only file
  it writes is \<open>MobileNet_v2_torch.mlmodel\<close>.
\<close>

theorem network_and_file_names:
  "list_all (\<lambda>c. \<not> is_network c) (trace_of (xgboost_notebook w))
   \<and> files_read (trace_of (xgboost_notebook w))
       \<subseteq> {lit ''machine.txt.train'', lit ''machine.txt.test'', lit ''machine.featmap.txt'',
           lit ''machine.mlmodel''}
   \<and> files_written (trace_of (xgboost_notebook w)) \<subseteq> {lit ''machine.mlmodel''}
   \<and> list_all (\<lambda>c. is_network c \<longrightarrow> c = hub_load_call \<or> c = urlopen_call)
         (trace_of (pytorch_notebook w))
   \<and> files_read (trace_of (pytorch_notebook w))
       \<subseteq> {lit ''Dog.jpg'', lit ''MobileNet_v2_torch.mlmodel''}
   \<and> files_written (trace_of (pytorch_notebook w)) \<subseteq> {lit ''MobileNet_v2_torch.mlmodel''}"
proof (intro conjI)
  show "list_all (\<lambda>c. \<not> is_network c) (trace_of (xgboost_notebook w))"
    by (rule emits_trace[OF xgb_no_network])
  show "list_all (\<lambda>c. is_network c \<longrightarrow> c = hub_load_call \<or> c = urlopen_call)
         (trace_of (pytorch_notebook w))"
    by (rule emits_trace[OF pt_network])
  have "files_read (trace_of (xgboost_notebook w))
       \<subseteq> {lit ''machine.txt.train'', lit ''machine.txt.test'', lit ''machine.featmap.txt''}
           \<union> (if IS_MACOS w then {lit ''machine.mlmodel''} else {})"
    by (rule files_read_subset[OF emits_trace[OF xgb_reads]])
  then show "files_read (trace_of (xgboost_notebook w))
       \<subseteq> {lit ''machine.txt.train'', lit ''machine.txt.test'', lit ''machine.featmap.txt'',
           lit ''machine.mlmodel''}"
    by (auto split: if_splits)
  show "files_written (trace_of (xgboost_notebook w)) \<subseteq> {lit ''machine.mlmodel''}"
    by (rule files_written_subset[OF emits_trace[OF xgb_writes]])
  have "files_read (trace_of (pytorch_notebook w))
       \<subseteq> {lit ''Dog.jpg''} \<union> (if IS_MACOS w then {lit ''MobileNet_v2_torch.mlmodel''} else {})"
    by (rule files_read_subset[OF emits_trace[OF pt_reads]])
  then show "files_read (trace_of (pytorch_notebook w))
       \<subseteq> {lit ''Dog.jpg'', lit ''MobileNet_v2_torch.mlmodel''}"
    by (auto split: if_splits)
  show "files_written (trace_of (pytorch_notebook w)) \<subseteq> {lit ''MobileNet_v2_torch.mlmodel''}"
    by (rule files_written_subset[OF emits_trace[OF pt_writes]])
qed

text \<open>The fourth call of the Linux run of the PyTorch notebook is the \<open>torch.hub.load\<close>.\<close>

theorem network_and_file_names_witness:
  "is_network (trace_of (pytorch_notebook linux_world) ! 3)
   \<and> (trace_of (pytorch_notebook linux_world) ! 3 = hub_load_call
        \<or> trace_of (pytorch_notebook linux_world) ! 3 = urlopen_call)"
proof -
  let ?t = "trace_of (pytorch_notebook linux_world)"
  have n: "is_network (?t ! 3)" and l: "3 < length ?t"
    using pt_linux_run is_network_calls by simp_all
  from network_and_file_names[of linux_world]
  have "list_all (\<lambda>c. is_network c \<longrightarrow> c = hub_load_call \<or> c = urlopen_call) ?t"
    by blast
  with l have "is_network (?t ! 3) \<longrightarrow> ?t ! 3 = hub_load_call \<or> ?t ! 3 = urlopen_call"
    by (simp add: list_all_length)
  with n show ?thesis by blast
qed

lemma xgb_predict_darwin:
  "IS_MACOS w \<Longrightarrow>
     (\<exists>rest. fst (xgb_cell_predict w ex h) = h @ xgb_reload_call # rest)
     \<and> (raises w h xgb_reload_call = None \<longrightarrow>
          (\<exists>rest. fst (xgb_cell_predict w ex h) = h @ xgb_reload_call # xgb_predict_call ex # rest))"
  by (auto simp: xgb_cell_predict_def nb_seq_def ext_call_def nb_pure_def xgb_reload_call_def
      xgb_predict_call_def split: option.splits)

lemma pt_predict_darwin:
  "IS_MACOS w \<Longrightarrow>
     (\<exists>rest. fst (pt_cell_predict w img h) = h @ pt_reload_call # rest)
     \<and> (raises w h pt_reload_call = None \<longrightarrow>
          (\<exists>rest. fst (pt_cell_predict w img h) = h @ pt_reload_call # pt_predict_call img # rest))"
  by (auto simp: pt_cell_predict_def nb_seq_def ext_call_def nb_pure_def pt_reload_call_def
      pt_predict_call_def split: option.splits)

text \<open>
  C2: when \<open>sys.platform\<close> is not \<open>'darwin'\<close> the final step of each notebook makes no
  call at all and returns the string \<open>'Skipping prediction on non-macOS system'\<close>, no run
  reloads a model, and a complete run leaves \<open>prediction\<close> bound to that string. When
  it is \<open>'darwin'\<close> the final step first reloads the artifact by its
  literal name and, when that does not raise, next calls \<open>predict\<close> on the reloaded model
  with the input record (\<open>example\<close>, or \<open>{'input.1': img}\<close>); a complete run has made
  that call, with \<open>example\<close> built from the feature names, and leaves its result in
  \<open>prediction\<close>.
\<close>

theorem prediction_platform_gate:
  "(platform w \<noteq> lit ''darwin'' \<longrightarrow>
      xgb_cell_predict w ex = nb_pure (PyStr (lit ''Skipping prediction on non-macOS system''))
      \<and> pt_cell_predict w img = nb_pure (PyStr (lit ''Skipping prediction on non-macOS system''))
      \<and> list_all (\<lambda>c. \<not> is_reload c) (trace_of (xgboost_notebook w))
      \<and> list_all (\<lambda>c. \<not> is_reload c) (trace_of (pytorch_notebook w))
      \<and> (\<forall>g. result_of (xgboost_notebook w) = Inr g \<longrightarrow>
            g_prediction g = PyStr (lit ''Skipping prediction on non-macOS system''))
      \<and> (\<forall>g. result_of (pytorch_notebook w) = Inr g \<longrightarrow>
            g_pt_prediction g = PyStr (lit ''Skipping prediction on non-macOS system'')))
   \<and> (platform w = lit ''darwin'' \<longrightarrow>
      (\<exists>rest. fst (xgb_cell_predict w ex h) = h @ xgb_reload_call # rest)
      \<and> (raises w h xgb_reload_call = None \<longrightarrow>
           (\<exists>rest. fst (xgb_cell_predict w ex h) = h @ xgb_reload_call # xgb_predict_call ex # rest))
      \<and> (\<exists>rest. fst (pt_cell_predict w img h) = h @ pt_reload_call # rest)
      \<and> (raises w h pt_reload_call = None \<longrightarrow>
           (\<exists>rest. fst (pt_cell_predict w img h) = h @ pt_reload_call # pt_predict_call img # rest))
      \<and> (\<forall>g. result_of (xgboost_notebook w) = Inr g \<longrightarrow>
            g_example g = example_of (g_feature_names g)
            \<and> xgb_predict_call (g_example g) \<in> set (trace_of (xgboost_notebook w))
            \<and> g_prediction g = returned (xgb_predict_call (g_example g)))
      \<and> (\<forall>g. result_of (pytorch_notebook w) = Inr g \<longrightarrow>
            pt_predict_call (g_img g) \<in> set (trace_of (pytorch_notebook w))
            \<and> g_pt_prediction g = returned (pt_predict_call (g_img g))))"
  unfolding IS_MACOS_def[symmetric] placeholder_def[symmetric]
proof (intro conjI impI allI)
  assume n: "\<not> IS_MACOS w"
  from n show "xgb_cell_predict w ex = nb_pure placeholder"
    by (simp add: xgb_cell_predict_def)
  from n show "pt_cell_predict w img = nb_pure placeholder"
    by (simp add: pt_cell_predict_def)
  from n show "list_all (\<lambda>c. \<not> is_reload c) (trace_of (xgboost_notebook w))"
    by (rule emits_trace[OF xgb_no_reload])
  from n show "list_all (\<lambda>c. \<not> is_reload c) (trace_of (pytorch_notebook w))"
    by (rule emits_trace[OF pt_no_reload])
  show "g_prediction g = placeholder" if "result_of (xgboost_notebook w) = Inr g" for g
    using xgb_success(7)[OF that] n by (rule mp)
  show "g_pt_prediction g = placeholder" if "result_of (pytorch_notebook w) = Inr g" for g
    using pt_success(3)[OF that] n by (rule mp)
next
  assume m: "IS_MACOS w"
  from xgb_predict_darwin[OF m, of ex h]
  show "\<exists>rest. fst (xgb_cell_predict w ex h) = h @ xgb_reload_call # rest" by (rule conjunct1)
  from pt_predict_darwin[OF m, of img h]
  show "\<exists>rest. fst (pt_cell_predict w img h) = h @ pt_reload_call # rest" by (rule conjunct1)
  show "\<exists>rest. fst (xgb_cell_predict w ex h) = h @ xgb_reload_call # xgb_predict_call ex # rest"
    if "raises w h xgb_reload_call = None"
    using xgb_predict_darwin[OF m, of ex h, THEN conjunct2] that by (rule mp)
  show "\<exists>rest. fst (pt_cell_predict w img h) = h @ pt_reload_call # pt_predict_call img # rest"
    if "raises w h pt_reload_call = None"
    using pt_predict_darwin[OF m, of img h, THEN conjunct2] that by (rule mp)
  show "g_example g = example_of (g_feature_names g)"
    if "result_of (xgboost_notebook w) = Inr g" for g
    by (rule xgb_success(6)[OF that])
  show "xgb_predict_call (g_example g) \<in> set (trace_of (xgboost_notebook w))"
    if "result_of (xgboost_notebook w) = Inr g" for g
    using xgb_success(8)[OF that] m by (rule mp)
  show "g_prediction g = returned (xgb_predict_call (g_example g))"
    if "result_of (xgboost_notebook w) = Inr g" for g
    using xgb_success(9)[OF that] m by (rule mp)
  show "pt_predict_call (g_img g) \<in> set (trace_of (pytorch_notebook w))"
    if "result_of (pytorch_notebook w) = Inr g" for g
    using pt_success(4)[OF that] m by (rule mp)
  show "g_pt_prediction g = returned (pt_predict_call (g_img g))"
    if "result_of (pytorch_notebook w) = Inr g" for g
    using pt_success(5)[OF that] m by (rule mp)
qed

text \<open>The Linux run, and the final step on macOS started with the literal example.\<close>

theorem prediction_platform_gate_witness:
  "platform linux_world \<noteq> lit ''darwin''
   \<and> (\<exists>g. result_of (xgboost_notebook linux_world) = Inr g
         \<and> g_prediction g = PyStr (lit ''Skipping prediction on non-macOS system''))
   \<and> xgb_cell_predict linux_world example_literal [] =
         ([], Inr (PyStr (lit ''Skipping prediction on non-macOS system'')))
   \<and> platform macos_world = lit ''darwin''
   \<and> raises macos_world [] xgb_reload_call = None
   \<and> (\<exists>rest. fst (xgb_cell_predict macos_world example_literal []) =
          xgb_reload_call # xgb_predict_call example_literal # rest)"
proof -
  note gate = prediction_platform_gate[of linux_world example_literal PyNone "[]"]
  note gate' = prediction_platform_gate[of macos_world example_literal PyNone "[]"]
  note nl = linux_not_macos[unfolded IS_MACOS_def]
  note mm = macos_is_macos[unfolded IS_MACOS_def]
  obtain g where g: "result_of (xgboost_notebook linux_world) = Inr g"
    using xgb_linux_run by blast
  with gate nl
  have p: "g_prediction g = PyStr (lit ''Skipping prediction on non-macOS system'')"
    by blast
  from gate nl
  have "xgb_cell_predict linux_world example_literal =
          nb_pure (PyStr (lit ''Skipping prediction on non-macOS system''))"
    by blast
  then have c: "xgb_cell_predict linux_world example_literal [] =
          ([], Inr (PyStr (lit ''Skipping prediction on non-macOS system'')))"
    by (simp add: nb_pure_def)
  have r: "raises macos_world [] xgb_reload_call = None"
    by (simp add: macos_world_def linux_world_def)
  with gate' mm
  have "\<exists>rest. fst (xgb_cell_predict macos_world example_literal []) =
          [] @ xgb_reload_call # xgb_predict_call example_literal # rest"
    by blast
  then have u: "\<exists>rest. fst (xgb_cell_predict macos_world example_literal []) =
          xgb_reload_call # xgb_predict_call example_literal # rest"
    by simp
  from nl g p c mm r u show ?thesis by blast
qed

lemma distinct_file_names:
  "card {lit ''machine.txt.train'', lit ''machine.txt.test'', lit ''machine.featmap.txt''} = 3"
  by (simp add: lit_def)

text \<open>
  C3 as stated fails: the complete Linux run of the XGBoost notebook reads three files and
  that of the PyTorch notebook one.
\<close>

theorem notebooks_do_not_read_two_files:
  "card (files_read (trace_of (xgboost_notebook linux_world))) = 3
   \<and> card (files_read (trace_of (pytorch_notebook linux_world))) = 1"
proof -
  obtain g where "result_of (xgboost_notebook linux_world) = Inr g"
    using xgb_linux_run by blast
  from xgb_success(1)[OF this] linux_not_macos
  have x: "files_read (trace_of (xgboost_notebook linux_world)) =
      {lit ''machine.txt.train'', lit ''machine.txt.test'', lit ''machine.featmap.txt''}"
    by simp
  obtain g' where "result_of (pytorch_notebook linux_world) = Inr g'"
    using pt_linux_run by blast
  from pt_success(1)[OF this] linux_not_macos
  have p: "files_read (trace_of (pytorch_notebook linux_world)) = {lit ''Dog.jpg''}"
    by simp
  show ?thesis
    unfolding x p by (simp add: distinct_file_names)
qed

text \<open>
  C3, amended: the XGBoost notebook reads at most \<open>machine.txt.train\<close>,
  \<open>machine.txt.test\<close> and \<open>machine.featmap.txt\<close>, the PyTorch notebook at most
  \<open>Dog.jpg\<close>, each on macOS also its own output file; each writes at most its one
  output file; and a run that completes reads exactly those files and writes exactly
  that one.
\<close>

theorem file_interface:
  "files_read (trace_of (xgboost_notebook w))
       \<subseteq> {lit ''machine.txt.train'', lit ''machine.txt.test'', lit ''machine.featmap.txt''}
           \<union> (if IS_MACOS w then {lit ''machine.mlmodel''} else {})
   \<and> files_written (trace_of (xgboost_notebook w)) \<subseteq> {lit ''machine.mlmodel''}
   \<and> (\<forall>g. result_of (xgboost_notebook w) = Inr g \<longrightarrow>
         files_read (trace_of (xgboost_notebook w)) =
           {lit ''machine.txt.train'', lit ''machine.txt.test'', lit ''machine.featmap.txt''}
           \<union> (if IS_MACOS w then {lit ''machine.mlmodel''} else {})
         \<and> files_written (trace_of (xgboost_notebook w)) = {lit ''machine.mlmodel''})
   \<and> files_read (trace_of (pytorch_notebook w))
       \<subseteq> {lit ''Dog.jpg''} \<union> (if IS_MACOS w then {lit ''MobileNet_v2_torch.mlmodel''} else {})
   \<and> files_written (trace_of (pytorch_notebook w)) \<subseteq> {lit ''MobileNet_v2_torch.mlmodel''}
   \<and> (\<forall>g. result_of (pytorch_notebook w) = Inr g \<longrightarrow>
         files_read (trace_of (pytorch_notebook w)) =
           {lit ''Dog.jpg''} \<union> (if IS_MACOS w then {lit ''MobileNet_v2_torch.mlmodel''} else {})
         \<and> files_written (trace_of (pytorch_notebook w)) = {lit ''MobileNet_v2_torch.mlmodel''})"
proof (intro conjI allI impI)
  show "files_read (trace_of (xgboost_notebook w))
       \<subseteq> {lit ''machine.txt.train'', lit ''machine.txt.test'', lit ''machine.featmap.txt''}
           \<union> (if IS_MACOS w then {lit ''machine.mlmodel''} else {})"
    by (rule files_read_subset[OF emits_trace[OF xgb_reads]])
  show "files_written (trace_of (xgboost_notebook w)) \<subseteq> {lit ''machine.mlmodel''}"
    by (rule files_written_subset[OF emits_trace[OF xgb_writes]])
  show "files_read (trace_of (pytorch_notebook w))
       \<subseteq> {lit ''Dog.jpg''} \<union> (if IS_MACOS w then {lit ''MobileNet_v2_torch.mlmodel''} else {})"
    by (rule files_read_subset[OF emits_trace[OF pt_reads]])
  show "files_written (trace_of (pytorch_notebook w)) \<subseteq> {lit ''MobileNet_v2_torch.mlmodel''}"
    by (rule files_written_subset[OF emits_trace[OF pt_writes]])
next
  fix g assume r: "result_of (xgboost_notebook w) = Inr g"
  show "files_read (trace_of (xgboost_notebook w)) =
           {lit ''machine.txt.train'', lit ''machine.txt.test'', lit ''machine.featmap.txt''}
           \<union> (if IS_MACOS w then {lit ''machine.mlmodel''} else {})"
    by (rule xgb_success(1)[OF r])
  show "files_written (trace_of (xgboost_notebook w)) = {lit ''machine.mlmodel''}"
    by (rule xgb_success(2)[OF r])
next
  fix g assume r: "result_of (pytorch_notebook w) = Inr g"
  show "files_read (trace_of (pytorch_notebook w)) =
           {lit ''Dog.jpg''} \<union> (if IS_MACOS w then {lit ''MobileNet_v2_torch.mlmodel''} else {})"
    by (rule pt_success(1)[OF r])
  show "files_written (trace_of (pytorch_notebook w)) = {lit ''MobileNet_v2_torch.mlmodel''}"
    by (rule pt_success(2)[OF r])
qed

text \<open>The complete Linux run of the XGBoost notebook.\<close>

theorem file_interface_witness:
  "(\<exists>g. result_of (xgboost_notebook linux_world) = Inr g)
   \<and> files_read (trace_of (xgboost_notebook linux_world)) =
       {lit ''machine.txt.train'', lit ''machine.txt.test'', lit ''machine.featmap.txt''}
   \<and> files_written (trace_of (xgboost_notebook linux_world)) = {lit ''machine.mlmodel''}"
proof -
  obtain g where g: "result_of (xgboost_notebook linux_world) = Inr g"
    using xgb_linux_run by blast
  note fi = file_interface[of linux_world, THEN conjunct2, THEN conjunct2, THEN conjunct1,
      rule_format, OF g]
  from fi
  have "files_read (trace_of (xgboost_notebook linux_world)) =
           {lit ''machine.txt.train'', lit ''machine.txt.test'', lit ''machine.featmap.txt''}
           \<union> (if IS_MACOS linux_world then {lit ''machine.mlmodel''} else {})
         \<and> files_written (trace_of (xgboost_notebook linux_world)) = {lit ''machine.mlmodel''}"
    .
  with g linux_not_macos show ?thesis by simp
qed

text \<open>
  C5: when every line of the feature map has at least two whitespace-separated tokens, the
  feature names are the second token of each line in line order; every conversion call of
  a run carries exactly that list as \<open>feature_names\<close>, with target \<open>perf\<close> and mode
  \<open>regressor\<close>; and a complete run has made that call on the trained model.
\<close>

theorem feature_names_passed_to_convert:
  "(\<forall>line\<in>set (readlines (file_text w (lit ''machine.featmap.txt''))). 2 \<le> length (spec_tokens line))
   \<longrightarrow>
     feature_names_of (file_text w (lit ''machine.featmap.txt''))
       = Inr (spec_second_tokens (file_text w (lit ''machine.featmap.txt'')))
     \<and> list_all (\<lambda>c. fst c = ''ct.converters.xgboost.convert'' \<longrightarrow>
                  snd (snd c) = convert_kwargs (spec_second_tokens (file_text w (lit ''machine.featmap.txt''))))
          (trace_of (xgboost_notebook w))
     \<and> (\<forall>g. result_of (xgboost_notebook w) = Inr g \<longrightarrow>
           g_feature_names g = spec_second_tokens (file_text w (lit ''machine.featmap.txt''))
           \<and> (''ct.converters.xgboost.convert'', [g_bst_model g],
                convert_kwargs (spec_second_tokens (file_text w (lit ''machine.featmap.txt''))))
               \<in> set (trace_of (xgboost_notebook w)))"
proof (intro impI conjI allI)
  assume h: "\<forall>line\<in>set (readlines (file_text w (lit ''machine.featmap.txt''))). 2 \<le> length (spec_tokens line)"
  then show "feature_names_of (file_text w (lit ''machine.featmap.txt''))
       = Inr (spec_second_tokens (file_text w (lit ''machine.featmap.txt'')))"
    by (rule feature_names_of_spec)
  show "list_all (\<lambda>c. fst c = ''ct.converters.xgboost.convert'' \<longrightarrow>
                  snd (snd c) = convert_kwargs (spec_second_tokens (file_text w (lit ''machine.featmap.txt''))))
          (trace_of (xgboost_notebook w))"
    by (rule emits_trace[OF xgb_convert_args])
next
  fix g assume g: "result_of (xgboost_notebook w) = Inr g"
  note f = xgb_success(5)[OF g] and c = xgb_success(4)[OF g]
  from f show n: "g_feature_names g = spec_second_tokens (file_text w (lit ''machine.featmap.txt''))"
    by (rule feature_names_of_Inr)
  from c n show "(''ct.converters.xgboost.convert'', [g_bst_model g],
                convert_kwargs (spec_second_tokens (file_text w (lit ''machine.featmap.txt''))))
               \<in> set (trace_of (xgboost_notebook w))"
    by simp
qed

lemma featmap_lines:
  "readlines featmap_text =
     [lit ''0 MYCT int'' @ [10], lit ''1 vendor:ibm i'' @ [10], lit ''2 vendor:hp i'' @ [10]]"
  by (simp add: featmap_text_def readlines_def lit_def)

lemma featmap_tokens:
  "py_split (lit ''0 MYCT int'' @ [10]) = [lit ''0'', lit ''MYCT'', lit ''int'']"
  "py_split (lit ''1 vendor:ibm i'' @ [10]) = [lit ''1'', lit ''vendor:ibm'', lit ''i'']"
  "py_split (lit ''2 vendor:hp i'' @ [10]) = [lit ''2'', lit ''vendor:hp'', lit ''i'']"
  by (simp_all add: py_split_def isspace_def lit_def)

text \<open>The three-line feature map of the example world.\<close>

theorem feature_names_passed_to_convert_witness:
  "list_all (\<lambda>line. 2 \<le> length (spec_tokens line))
      (readlines (file_text linux_world (lit ''machine.featmap.txt'')))
   \<and> spec_second_tokens (file_text linux_world (lit ''machine.featmap.txt''))
        = [lit ''MYCT'', lit ''vendor:ibm'', lit ''vendor:hp'']
   \<and> feature_names_of (file_text linux_world (lit ''machine.featmap.txt''))
        = Inr [lit ''MYCT'', lit ''vendor:ibm'', lit ''vendor:hp'']"
proof -
  have t: "file_text linux_world (lit ''machine.featmap.txt'') = featmap_text"
    by (simp add: linux_world_def)
  have a: "list_all (\<lambda>line. 2 \<le> length (spec_tokens line)) (readlines featmap_text)"
    by (simp add: featmap_lines py_split_spec_tokens[symmetric] featmap_tokens)
  have b: "spec_second_tokens featmap_text = [lit ''MYCT'', lit ''vendor:ibm'', lit ''vendor:hp'']"
    by (simp add: spec_second_tokens_def featmap_lines py_split_spec_tokens[symmetric] featmap_tokens)
  from a have "\<forall>line\<in>set (readlines (file_text linux_world (lit ''machine.featmap.txt''))).
      2 \<le> length (spec_tokens line)"
    by (simp add: t list_all_iff)
  with feature_names_passed_to_convert[of linux_world]
  have "feature_names_of (file_text linux_world (lit ''machine.featmap.txt''))
       = Inr (spec_second_tokens (file_text linux_world (lit ''machine.featmap.txt'')))"
    by blast
  with a b show ?thesis by (simp add: t)
qed

text \<open>
  C6: every training call of a run passes the dict \<open>param\<close> and
  \<open>num_boost_round=2\<close>; a complete run has trained on \<open>machine.txt.train\<close>;
  \<open>param\<close> has exactly the five named fields, each a scalar, whatever the world.
\<close>

theorem train_hyperparameters:
  "list_all (\<lambda>c. fst c = ''xgb.train'' \<longrightarrow>
        (\<exists>dtrain. c = (''xgb.train'', [PyDict param, dtrain], [(''num_boost_round'', PyInt 2)])))
      (trace_of (xgboost_notebook w))
   \<and> (\<forall>g. result_of (xgboost_notebook w) = Inr g \<longrightarrow> train_call \<in> set (trace_of (xgboost_notebook w)))
   \<and> map fst param =
       [lit ''objective'', lit ''eta'', lit ''gamma'', lit ''min_child_weight'', lit ''max_depth'']
   \<and> list_all (\<lambda>kv. is_scalar (snd kv)) param
   \<and> distinct (map fst param)"
proof (intro conjI allI impI)
  show "list_all (\<lambda>c. fst c = ''xgb.train'' \<longrightarrow>
        (\<exists>dtrain. c = (''xgb.train'', [PyDict param, dtrain], [(''num_boost_round'', PyInt 2)])))
      (trace_of (xgboost_notebook w))"
    by (rule emits_trace[OF xgb_train_args])
  show "train_call \<in> set (trace_of (xgboost_notebook w))"
    if "result_of (xgboost_notebook w) = Inr g" for g
    by (rule xgb_success(3)[OF that])
  show "map fst param =
       [lit ''objective'', lit ''eta'', lit ''gamma'', lit ''min_child_weight'', lit ''max_depth'']"
    by (simp add: param_def)
  show "list_all (\<lambda>kv. is_scalar (snd kv)) param"
    by (simp add: param_def is_scalar_def)
  show "distinct (map fst param)"
    by (simp add: param_def lit_def)
qed

text \<open>The fifth call of the Linux run.\<close>

theorem train_hyperparameters_witness:
  "fst (trace_of (xgboost_notebook linux_world) ! 4) = ''xgb.train''
   \<and> (\<exists>dtrain. trace_of (xgboost_notebook linux_world) ! 4 =
         (''xgb.train'', [PyDict param, dtrain], [(''num_boost_round'', PyInt 2)]))"
proof -
  let ?t = "trace_of (xgboost_notebook linux_world)"
  have f: "fst (?t ! 4) = ''xgb.train''" and l: "4 < length ?t"
    using xgb_linux_run by (simp_all add: train_call_def)
  from train_hyperparameters[of linux_world]
  have "list_all (\<lambda>c. fst c = ''xgb.train'' \<longrightarrow>
        (\<exists>dtrain. c = (''xgb.train'', [PyDict param, dtrain], [(''num_boost_round'', PyInt 2)]))) ?t"
    by blast
  with l have "fst (?t ! 4) = ''xgb.train'' \<longrightarrow>
        (\<exists>dtrain. ?t ! 4 = (''xgb.train'', [PyDict param, dtrain], [(''num_boost_round'', PyInt 2)]))"
    by (simp add: list_all_length)
  with f show ?thesis by blast
qed

text \<open>
  C7: in either notebook, a call that raises is the last call of the run and its exception
  is the outcome of the run: nothing catches it, retries or goes on.
\<close>

theorem exceptions_propagate:
  "(\<forall>i<length (trace_of (xgboost_notebook w)). \<forall>e.
       raises w (take i (trace_of (xgboost_notebook w))) (trace_of (xgboost_notebook w) ! i) = Some e
       \<longrightarrow> result_of (xgboost_notebook w) = Inl e \<and> Suc i = length (trace_of (xgboost_notebook w)))
   \<and> (\<forall>i<length (trace_of (pytorch_notebook w)). \<forall>e.
       raises w (take i (trace_of (pytorch_notebook w))) (trace_of (pytorch_notebook w) ! i) = Some e
       \<longrightarrow> result_of (pytorch_notebook w) = Inl e \<and> Suc i = length (trace_of (pytorch_notebook w)))"
proof (rule conjI; intro allI impI)
  fix i e
  assume "i < length (trace_of (xgboost_notebook w))"
    and "raises w (take i (trace_of (xgboost_notebook w))) (trace_of (xgboost_notebook w) ! i) = Some e"
  with xgb_propagates
  show "result_of (xgboost_notebook w) = Inl e \<and> Suc i = length (trace_of (xgboost_notebook w))"
    by (rule propagates_trace)
next
  fix i e
  assume "i < length (trace_of (pytorch_notebook w))"
    and "raises w (take i (trace_of (pytorch_notebook w))) (trace_of (pytorch_notebook w) ! i) = Some e"
  with pt_propagates
  show "result_of (pytorch_notebook w) = Inl e \<and> Suc i = length (trace_of (pytorch_notebook w))"
    by (rule propagates_trace)
qed

text \<open>
  \<open>open('machine.featmap.txt')\<close> raises: the run ends there, after 19 calls, with that
  exception.
\<close>

theorem exceptions_propagate_witness:
  "18 < length (trace_of (xgboost_notebook open_fails_world))
   \<and> raises open_fails_world (take 18 (trace_of (xgboost_notebook open_fails_world)))
        (trace_of (xgboost_notebook open_fails_world) ! 18) = Some (OSError 2)
   \<and> result_of (xgboost_notebook open_fails_world) = Inl (OSError 2)
   \<and> length (trace_of (xgboost_notebook open_fails_world)) = 19"
proof -
  let ?t = "trace_of (xgboost_notebook open_fails_world)"
  have l: "18 < length ?t" using xgb_open_fails_run by simp
  have r: "raises open_fails_world (take 18 ?t) (?t ! 18) = Some (OSError 2)"
    using xgb_open_fails_run by (simp add: open_fails_world_def linux_world_def)
  from exceptions_propagate[of open_fails_world, THEN conjunct1, rule_format, OF l r]
  have "result_of (xgboost_notebook open_fails_world) = Inl (OSError 2) \<and> Suc 18 = length ?t" .
  with l r show ?thesis by simp
qed

text \<open>
  C8 as stated fails: in the complete Linux run of the PyTorch notebook the model is built
  (step 2, twice) before the image is loaded (step 1).
\<close>

theorem pytorch_builds_before_loading:
  "stages spec_stage (trace_of (pytorch_notebook linux_world)) = [2, 2, 1, 3, 4]
   \<and> \<not> sorted (stages spec_stage (trace_of (pytorch_notebook linux_world)))"
  using pt_linux_run by simp

text \<open>
  C8, amended: in every run of the XGBoost notebook the steps come in the order load data,
  train, convert, save, reload; in every run of the PyTorch notebook in the order build the
  model, load the image, convert, save, reload; and in both a reload of the artifact comes
  only after the call that saves that file.
\<close>

theorem pipeline_order:
  "sorted (stages spec_stage (trace_of (xgboost_notebook w)))
   \<and> sorted (stages pt_stage (trace_of (pytorch_notebook w)))
   \<and> saved_before_use (lit ''machine.mlmodel'') (trace_of (xgboost_notebook w))
   \<and> saved_before_use (lit ''MobileNet_v2_torch.mlmodel'') (trace_of (pytorch_notebook w))"
  using appends_trace[OF xgb_ordered, of w] appends_trace[OF pt_ordered, of w]
    appends_trace[OF xgb_saved_first, of w] appends_trace[OF pt_saved_first, of w]
  by (simp add: ordered_from_def)

text \<open>The macOS run of the XGBoost notebook: its 26th call reloads the artifact.\<close>

theorem pipeline_order_witness:
  "25 < length (trace_of (xgboost_notebook macos_world))
   \<and> is_reload (trace_of (xgboost_notebook macos_world) ! 25)
   \<and> (\<exists>j<25. file_written (trace_of (xgboost_notebook macos_world) ! j) = Some (lit ''machine.mlmodel''))
   \<and> stages spec_stage (trace_of (xgboost_notebook macos_world)) = [1, 1, 2, 3, 4, 5]"
proof -
  let ?t = "trace_of (xgboost_notebook macos_world)"
  have l: "25 < length ?t" and r: "is_reload (?t ! 25)"
    and s: "stages spec_stage ?t = [1, 1, 2, 3, 4, 5]"
    using xgb_macos_run by (simp_all add: is_reload_def xgb_reload_call_def)
  from pipeline_order[of macos_world]
  have "saved_before_use (lit ''machine.mlmodel'') ?t" by blast
  with l r have "\<exists>j<25. file_written (?t ! j) = Some (lit ''machine.mlmodel'')"
    unfolding saved_before_use_def by blast
  with l r s show ?thesis by blast
qed

end
